theory Spec2Isabelle
  imports Complex_Main
begin

section \<open>The viewing space of a viewport (core/frontend/src/ViewingSpace.ts)\<close>

text \<open>
  A shallow embedding of the class \<^verbatim>\<open>ViewingSpace\<close>. JavaScript numbers are
  modelled as real numbers: every comparison and every arithmetic operation of the
  source is the operation of the same name on \<^typ>\<open>real\<close>; rounding and NaN are
  outside the model. Objects that the source mutates in place (points, ranges, the
  view) are values that each function returns updated. A function that can raise
  returns a value of a sum type, the error on the left.

  The geometry library (\<^verbatim>\<open>@bentley/geometry-core\<close>), the frustum helpers of
  \<^verbatim>\<open>@bentley/imodeljs-common\<close> and the classes \<^verbatim>\<open>ViewState\<close>,
  \<^verbatim>\<open>Viewport\<close> and \<^verbatim>\<open>ViewRect\<close> live in other files of the repository.
  Their elementary vector, matrix and range operations are modelled from the
  specification and marked so; everything else the class calls is a field of the
  record \<open>Env\<close>, about which nothing is assumed.
\<close>

subsection \<open>Points, vectors, matrices, ranges\<close>

text \<open>Modelled from the spec: \<^verbatim>\<open>XYZ\<close>, the common base of \<^verbatim>\<open>Point3d\<close> and
  \<^verbatim>\<open>Vector3d\<close> (geometry-core): three coordinates.\<close>

record XYZ =
  xyz_x :: real
  xyz_y :: real
  xyz_z :: real

type_synonym Point3d = XYZ
type_synonym Vector3d = XYZ

definition createXYZ :: "real \<Rightarrow> real \<Rightarrow> real \<Rightarrow> XYZ" where
  "createXYZ a b c = \<lparr>xyz_x = a, xyz_y = b, xyz_z = c\<rparr>"

definition createZero :: XYZ where
  "createZero = createXYZ 0 0 0"

definition unitZ :: Vector3d where
  "unitZ = createXYZ 0 0 1"

definition plus :: "XYZ \<Rightarrow> XYZ \<Rightarrow> XYZ" where
  "plus a b = createXYZ (xyz_x a + xyz_x b) (xyz_y a + xyz_y b) (xyz_z a + xyz_z b)"

definition minus :: "XYZ \<Rightarrow> XYZ \<Rightarrow> XYZ" where
  "minus a b = createXYZ (xyz_x a - xyz_x b) (xyz_y a - xyz_y b) (xyz_z a - xyz_z b)"

definition plusScaled :: "XYZ \<Rightarrow> XYZ \<Rightarrow> real \<Rightarrow> XYZ" where
  "plusScaled a v s =
     createXYZ (xyz_x a + xyz_x v * s) (xyz_y a + xyz_y v * s) (xyz_z a + xyz_z v * s)"

definition dotProduct :: "XYZ \<Rightarrow> XYZ \<Rightarrow> real" where
  "dotProduct a b = xyz_x a * xyz_x b + xyz_y a * xyz_y b + xyz_z a * xyz_z b"

definition crossProduct :: "XYZ \<Rightarrow> XYZ \<Rightarrow> XYZ" where
  "crossProduct a b =
     createXYZ (xyz_y a * xyz_z b - xyz_z a * xyz_y b)
               (xyz_z a * xyz_x b - xyz_x a * xyz_z b)
               (xyz_x a * xyz_y b - xyz_y a * xyz_x b)"

definition magnitude :: "XYZ \<Rightarrow> real" where
  "magnitude a = sqrt (dotProduct a a)"

text \<open>\<^verbatim>\<open>isExactEqual\<close> compares the three coordinates with \<^verbatim>\<open>===\<close>.\<close>

definition isExactEqual :: "XYZ \<Rightarrow> XYZ \<Rightarrow> bool" where
  "isExactEqual a b = (xyz_x a = xyz_x b \<and> xyz_y a = xyz_y b \<and> xyz_z a = xyz_z b)"

text \<open>Modelled from the spec: the tight tolerance of \<^verbatim>\<open>isAlmostEqual\<close>
  (\<^verbatim>\<open>Geometry.smallMetricDistance\<close> of geometry-core), applied to each coordinate.\<close>

definition smallMetricDistance :: real where
  "smallMetricDistance = 1 / 1000000"

definition isSameCoordinate :: "real \<Rightarrow> real \<Rightarrow> bool" where
  "isSameCoordinate a b = (abs (a - b) < smallMetricDistance)"

definition isAlmostEqual :: "XYZ \<Rightarrow> XYZ \<Rightarrow> bool" where
  "isAlmostEqual a b =
     (isSameCoordinate (xyz_x a) (xyz_x b) \<and> isSameCoordinate (xyz_y a) (xyz_y b)
      \<and> isSameCoordinate (xyz_z a) (xyz_z b))"

text \<open>Modelled from the spec: \<^verbatim>\<open>Matrix3d\<close> (geometry-core), held by its rows.
  \<open>multiplyVectorInPlace\<close> is the product matrix times vector,
  \<open>multiplyTransposeVectorInPlace\<close> the product of the transpose with the vector.\<close>

record Matrix3d =
  rowX :: Vector3d
  rowY :: Vector3d
  rowZ :: Vector3d

definition multiplyVectorInPlace :: "Matrix3d \<Rightarrow> XYZ \<Rightarrow> XYZ" where
  "multiplyVectorInPlace m v =
     createXYZ (dotProduct (rowX m) v) (dotProduct (rowY m) v) (dotProduct (rowZ m) v)"

definition multiplyTransposeVectorInPlace :: "Matrix3d \<Rightarrow> XYZ \<Rightarrow> XYZ" where
  "multiplyTransposeVectorInPlace m v =
     createXYZ (xyz_x (rowX m) * xyz_x v + xyz_x (rowY m) * xyz_y v + xyz_x (rowZ m) * xyz_z v)
               (xyz_y (rowX m) * xyz_x v + xyz_y (rowY m) * xyz_y v + xyz_y (rowZ m) * xyz_z v)
               (xyz_z (rowX m) * xyz_x v + xyz_z (rowY m) * xyz_y v + xyz_z (rowZ m) * xyz_z v)"

definition columnX :: "Matrix3d \<Rightarrow> Vector3d" where
  "columnX m = createXYZ (xyz_x (rowX m)) (xyz_x (rowY m)) (xyz_x (rowZ m))"

definition columnY :: "Matrix3d \<Rightarrow> Vector3d" where
  "columnY m = createXYZ (xyz_y (rowX m)) (xyz_y (rowY m)) (xyz_y (rowZ m))"

definition columnZ :: "Matrix3d \<Rightarrow> Vector3d" where
  "columnZ m = createXYZ (xyz_z (rowX m)) (xyz_z (rowY m)) (xyz_z (rowZ m))"

definition transpose :: "Matrix3d \<Rightarrow> Matrix3d" where
  "transpose m = \<lparr>rowX = columnX m, rowY = columnY m, rowZ = columnZ m\<rparr>"

definition createColumns :: "Vector3d \<Rightarrow> Vector3d \<Rightarrow> Vector3d \<Rightarrow> Matrix3d" where
  "createColumns cx cy cz = transpose \<lparr>rowX = cx, rowY = cy, rowZ = cz\<rparr>"

text \<open>\<^verbatim>\<open>setColumn(2, v)\<close>: the third column becomes \<open>v\<close>.\<close>

definition setColumn2 :: "Matrix3d \<Rightarrow> Vector3d \<Rightarrow> Matrix3d" where
  "setColumn2 m v = createColumns (columnX m) (columnY m) v"

definition scaleXYZ :: "XYZ \<Rightarrow> real \<Rightarrow> XYZ" where
  "scaleXYZ a s = createXYZ (xyz_x a * s) (xyz_y a * s) (xyz_z a * s)"

text \<open>Modelled from the spec: \<^verbatim>\<open>Matrix3d.createRigidFromMatrix3d(r, AxisOrder.ZXY, r)\<close>
  (geometry-core), the rigid re-orthonormalisation with the third axis primary: the Y
  column becomes Z cross X, the X column becomes Y cross Z, and the three columns are
  scaled to unit length unless one of them is too short, in which case the matrix is
  left with the cross products unscaled. The source passes \<open>r\<close> as the result object
  and does not look at the returned value, so the model returns the matrix as it is
  left in \<open>r\<close>.\<close>

definition createRigidFromMatrix3d_ZXY :: "Matrix3d \<Rightarrow> Matrix3d" where
  "createRigidFromMatrix3d_ZXY r =
     (let cz = columnZ r;
          cy = crossProduct cz (columnX r);
          cx = crossProduct cy cz;
          ax = magnitude cx; ay = magnitude cy; az = magnitude cz
      in if ax < smallMetricDistance \<or> ay < smallMetricDistance \<or> az < smallMetricDistance
         then createColumns cx cy cz
         else createColumns (scaleXYZ cx (1 / ax)) (scaleXYZ cy (1 / ay)) (scaleXYZ cz (1 / az)))"

text \<open>Modelled from the spec: \<^verbatim>\<open>Range3d\<close> (geometry-core), an axis-aligned box
  given by its low and high corners; it is null when a high coordinate lies below
  the low one, and \<open>extendPoint\<close> grows it to hold a point.\<close>

record Range3d =
  low :: Point3d
  high :: Point3d

definition isNull :: "Range3d \<Rightarrow> bool" where
  "isNull r = (xyz_x (high r) < xyz_x (low r) \<or> xyz_y (high r) < xyz_y (low r)
     \<or> xyz_z (high r) < xyz_z (low r))"

definition extendPoint :: "Range3d \<Rightarrow> Point3d \<Rightarrow> Range3d" where
  "extendPoint r p =
     \<lparr>low = createXYZ (min (xyz_x (low r)) (xyz_x p)) (min (xyz_y (low r)) (xyz_y p))
                      (min (xyz_z (low r)) (xyz_z p)),
      high = createXYZ (max (xyz_x (high r)) (xyz_x p)) (max (xyz_y (high r)) (xyz_y p))
                       (max (xyz_z (high r)) (xyz_z p))\<rparr>"

text \<open>\<^verbatim>\<open>Range3d.fractionToPoint\<close>: interpolation between the corners, per axis.\<close>

definition fractionToPoint :: "Range3d \<Rightarrow> real \<Rightarrow> real \<Rightarrow> real \<Rightarrow> Point3d" where
  "fractionToPoint r fx fy fz =
     createXYZ (xyz_x (low r) + fx * (xyz_x (high r) - xyz_x (low r)))
               (xyz_y (low r) + fy * (xyz_y (high r) - xyz_y (low r)))
               (xyz_z (low r) + fz * (xyz_z (high r) - xyz_z (low r)))"

text \<open>Modelled from the spec: \<^verbatim>\<open>Frustum\<close> (imodeljs-common), eight corner points.
  A new frustum holds the corners of the unit NPC cube; \<open>fromRange\<close> takes the
  corners of a range, \<open>multiply\<close> rotates each corner, \<open>toRange\<close> is the range of
  the corners (the first corner, extended by the others).\<close>

type_synonym Frustum = "Point3d list"

definition NpcCorners :: Frustum where
  "NpcCorners =
     [createXYZ 0 0 0, createXYZ 1 0 0, createXYZ 0 1 0, createXYZ 1 1 0,
      createXYZ 0 0 1, createXYZ 1 0 1, createXYZ 0 1 1, createXYZ 1 1 1]"

definition fromRange :: "Range3d \<Rightarrow> Frustum" where
  "fromRange r =
     (let l = low r; h = high r in
      [createXYZ (xyz_x l) (xyz_y l) (xyz_z l), createXYZ (xyz_x h) (xyz_y l) (xyz_z l),
       createXYZ (xyz_x l) (xyz_y h) (xyz_z l), createXYZ (xyz_x h) (xyz_y h) (xyz_z l),
       createXYZ (xyz_x l) (xyz_y l) (xyz_z h), createXYZ (xyz_x h) (xyz_y l) (xyz_z h),
       createXYZ (xyz_x l) (xyz_y h) (xyz_z h), createXYZ (xyz_x h) (xyz_y h) (xyz_z h)])"

definition multiplyFrustum :: "Matrix3d \<Rightarrow> Frustum \<Rightarrow> Frustum" where
  "multiplyFrustum m f = map (multiplyVectorInPlace m) f"

fun toRange :: "Frustum \<Rightarrow> Range3d" where
  "toRange [] = \<lparr>low = createXYZ 0 0 0, high = createXYZ 0 0 0\<rparr>"
| "toRange (p # ps) = foldl extendPoint \<lparr>low = p, high = p\<rparr> ps"

text \<open>Modelled from the spec: the constants of geometry-core's \<^verbatim>\<open>Constant\<close>. World
  units are meters.\<close>

definition oneMeter :: real where
  "oneMeter = 1"

definition oneCentimeter :: real where
  "oneCentimeter = 1 / 100"

definition earthRadiusWGS84_equator :: real where
  "earthRadiusWGS84_equator = 6378137"

subsection \<open>The view, the viewport and what they provide\<close>

text \<open>Modelled from the spec: the camera of a 3D view (eye point, focus distance,
  lens angle in radians).\<close>

record Camera =
  eye :: Point3d
  focusDist :: real
  lens :: real

record ExtentLimits =
  limits_min :: real
  limits_max :: real

text \<open>Modelled from the spec: the state of a \<^verbatim>\<open>ViewState\<close> that the class reads
  through its accessors of the same names. A 2D view has no camera; its
  \<open>camera\<close> and \<open>isCameraOn\<close> fields are never read.\<close>

record ViewState =
  getOrigin :: Point3d
  getExtents :: Vector3d
  getRotation :: Matrix3d
  is3d :: bool
  allow3dManipulations :: bool
  isCameraOn :: bool
  camera :: Camera
  extentLimits :: ExtentLimits
  forceMinFrontDist :: real

record Plane3dByOriginAndUnitNormal =
  getOriginRef :: Point3d
  getNormalRef :: Vector3d

record Ray3d =
  ray_origin :: Point3d
  ray_direction :: Vector3d

definition createStartEnd :: "Point3d \<Rightarrow> Point3d \<Rightarrow> Ray3d" where
  "createStartEnd a b = \<lparr>ray_origin = a, ray_direction = minus b a\<rparr>"

text \<open>\<^verbatim>\<open>Map4d\<close>: a pair of 4 by 4 matrices, each the inverse of the other. The
  matrices stay abstract (the type variable).\<close>

record 'm Map4d =
  transform0 :: 'm
  transform1 :: 'm

text \<open>Modelled from the spec: the pixel rectangle of a viewport (\<^verbatim>\<open>ViewRect\<close>),
  whole pixels.\<close>

record ViewRect =
  left :: int
  top :: int
  right :: int
  bottom :: int

definition width :: "ViewRect \<Rightarrow> int" where
  "width r = right r - left r"

definition height :: "ViewRect \<Rightarrow> int" where
  "height r = bottom r - top r"

definition initViewRect :: "int \<Rightarrow> int \<Rightarrow> int \<Rightarrow> int \<Rightarrow> ViewRect" where
  "initViewRect l t r b = \<lparr>left = l, top = t, right = r, bottom = b\<rparr>"

record Viewport =
  vp_view :: ViewState
  viewRect :: ViewRect
  getDisplayedPlanes :: "Plane3dByOriginAndUnitNormal list"

text \<open>
  The operations of the absent classes that the source calls and whose results the
  model does not compute. \<open>computeWorldToNpc view rot origin delta enforce\<close> is the
  view's world-to-NPC map builder: it returns the map, or no map, and the frustum
  fraction.
\<close>

record 'm Env =
  computeWorldToNpc ::
    "ViewState \<Rightarrow> Matrix3d \<Rightarrow> Point3d \<Rightarrow> Vector3d \<Rightarrow> bool \<Rightarrow> 'm Map4d option \<times> real"
  getViewedExtents :: "ViewState \<Rightarrow> Range3d"
  getEyePoint :: "ViewState \<Rightarrow> Point3d"
  validateLens :: "Camera \<Rightarrow> Camera"
  isFocusValid :: "Camera \<Rightarrow> bool"
  intersectionWithPlane :: "Ray3d \<Rightarrow> Plane3dByOriginAndUnitNormal \<Rightarrow> (real \<times> Point3d) option"
  multiplyPoint3dQuietNormalize :: "'m \<Rightarrow> Point3d \<Rightarrow> Point3d"
  createBoxMap :: "Point3d \<Rightarrow> Point3d \<Rightarrow> Point3d \<Rightarrow> Point3d \<Rightarrow> 'm Map4d option"
  createIdentity :: "'m Map4d"
  multiplyMapMap :: "'m Map4d \<Rightarrow> 'm Map4d \<Rightarrow> 'm Map4d"

datatype CoordSystem = View | Npc | World

subsection \<open>The class ViewingSpace\<close>

record 'm ViewingSpace =
  frustFraction :: real
  viewOrigin :: Point3d
  viewDelta :: Vector3d
  viewOriginUnexpanded :: Point3d
  viewDeltaUnexpanded :: Vector3d
  rotation :: Matrix3d
  worldToViewMap :: "'m Map4d"
  worldToNpcMap :: "'m Map4d"
  zClipAdjusted :: bool
  view :: ViewState
  clientWidth :: int
  clientHeight :: int
  displayedPlanes :: "Plane3dByOriginAndUnitNormal list"

definition frustumDepth2d :: real where
  "frustumDepth2d = oneMeter"

definition toViewOrientation :: "'m ViewingSpace \<Rightarrow> XYZ \<Rightarrow> XYZ" where
  "toViewOrientation this from = multiplyVectorInPlace (rotation this) from"

definition fromViewOrientation :: "'m ViewingSpace \<Rightarrow> XYZ \<Rightarrow> XYZ" where
  "fromViewOrientation this from = multiplyTransposeVectorInPlace (rotation this) from"

text \<open>\<^verbatim>\<open>alignWithRootZ\<close>: the rotation of the viewing space and, by
  \<^verbatim>\<open>view.setRotation\<close>, that of the view are replaced unless the third row is
  already almost the world Z axis.\<close>

definition alignWithRootZ :: "'m ViewingSpace \<Rightarrow> 'm ViewingSpace" where
  "alignWithRootZ this =
     (let zUp = unitZ in
      if isAlmostEqual zUp (rowZ (rotation this)) then this
      else
        let r0 = transpose (rotation this);
            r1 = setColumn2 r0 zUp;
            r2 = createRigidFromMatrix3d_ZXY r1;
            rot = transpose r2
        in this\<lparr>rotation := rot, view := (view this)\<lparr>getRotation := rot\<rparr>\<rparr>)"

text \<open>\<^verbatim>\<open>validateCamera\<close>: the lens is validated; when the focus distance is not
  valid, the eye point and the focus distance of the view's camera are set.\<close>

definition validateCamera :: "'m Env \<Rightarrow> 'm ViewingSpace \<Rightarrow> 'm ViewingSpace" where
  "validateCamera env this =
     (let v = view this in
      if \<not> is3d v then this
      else
        let cam = validateLens env (camera v) in
        if isFocusValid env cam then this\<lparr>view := v\<lparr>camera := cam\<rparr>\<rparr>
        else
          let vDelta = getExtents v;
              maxDelta = (if xyz_x vDelta > xyz_y vDelta then xyz_x vDelta else xyz_y vDelta);
              focusDistance0 = maxDelta / (2 * tan (lens cam / 2));
              focusDistance = (if focusDistance0 < xyz_z vDelta / 2 then xyz_z vDelta / 2
                               else focusDistance0);
              eyePoint0 = createXYZ (xyz_x vDelta / 2) (xyz_y vDelta / 2)
                                    (xyz_z vDelta / 2 + focusDistance);
              eyePoint1 = fromViewOrientation this eyePoint0;
              eyePoint = plus eyePoint1 (getOrigin v)
          in this\<lparr>view := v\<lparr>camera := cam\<lparr>eye := eyePoint, focusDist := focusDistance\<rparr>\<rparr>\<rparr>)"

text \<open>The loop over the four side edges of the frustum in
  \<^verbatim>\<open>extendRangeForDisplayedPlanes\<close>: the state is the range and the flag
  \<^verbatim>\<open>includeHorizon\<close>. The eight points are the NPC corners mapped to world, so
  the indices \<open>i\<close> and \<open>i + 4\<close> are in range.\<close>

definition extendForEdge ::
  "'m Env \<Rightarrow> 'm ViewingSpace \<Rightarrow> Plane3dByOriginAndUnitNormal \<Rightarrow> Frustum
     \<Rightarrow> Range3d \<times> bool \<Rightarrow> nat \<Rightarrow> Range3d \<times> bool" where
  "extendForEdge env this displayedPlane points st i =
     (let frustumRay = createStartEnd (points ! (i + 4)) (points ! i) in
      case intersectionWithPlane env frustumRay displayedPlane of
        Some (intersectDistance, intersect) \<Rightarrow>
          if \<not> isCameraOn (view this) \<or> intersectDistance > 0
          then (extendPoint (fst st) intersect, snd st)
          else (fst st, True)
      | None \<Rightarrow> (fst st, True))"

text \<open>\<^verbatim>\<open>extendRangeForDisplayedPlanes\<close>, the body of the loop over the displayed
  planes for a 3D view. The \<^verbatim>\<open>return\<close> inside the loop (no provisional
  world-to-NPC map) leaves the range as the planes before have extended it.\<close>

fun extendRangeLoop ::
  "'m Env \<Rightarrow> 'm ViewingSpace \<Rightarrow> Plane3dByOriginAndUnitNormal list \<Rightarrow> Range3d \<Rightarrow> Range3d" where
  "extendRangeLoop env this [] extents = extents"
| "extendRangeLoop env this (displayedPlane # rest) extents =
     (let planeNormal = getNormalRef displayedPlane;
          viewZ = rowZ (rotation this);
          onPlane = crossProduct viewZ planeNormal
      in
      if magnitude onPlane > 1 / 100000000 then
        (case fst (computeWorldToNpc env (view this) (rotation this) (viewOrigin this)
                     (viewDelta this) False) of
           None \<Rightarrow> extents
         | Some worldToNpc \<Rightarrow>
             let points = map (multiplyPoint3dQuietNormalize env (transform1 worldToNpc)) NpcCorners;
                 st = foldl (extendForEdge env this displayedPlane points) (extents, False) [0, 1, 2, 3];
                 extents1 = fst st;
                 includeHorizon = snd st;
                 extents2 =
                   (if includeHorizon then
                      let eyePoint = getEyePoint env (view this);
                          eyeHeight = xyz_z eyePoint;
                          horizonDistance =
                            (if eyeHeight > 0
                             then max 10000 (sqrt (eyeHeight * eyeHeight
                                    + 2 * eyeHeight * earthRadiusWGS84_equator))
                             else 10000)
                      in extendPoint extents1 (plusScaled eyePoint viewZ (- horizonDistance))
                    else extents1);
                 extents3 =
                   (if isCameraOn (view this)
                    then extendPoint extents2 (plusScaled (getEyePoint env (view this)) viewZ (- 10))
                    else extents2)
             in extendRangeLoop env this rest extents3)
      else
        extendRangeLoop env this rest
          (extendPoint (extendPoint extents (plusScaled (getOriginRef displayedPlane) planeNormal (- 1)))
                  (plusScaled (getOriginRef displayedPlane) planeNormal 1)))"

definition extendRangeForDisplayedPlanes ::
  "'m Env \<Rightarrow> 'm ViewingSpace \<Rightarrow> Range3d \<Rightarrow> Range3d" where
  "extendRangeForDisplayedPlanes env this extents =
     (if \<not> is3d (view this) then extents
      else extendRangeLoop env this (displayedPlanes this) extents)"

text \<open>\<^verbatim>\<open>adjustZPlanes(origin, delta)\<close> returns the origin and the delta as the
  source leaves them.\<close>

definition adjustZPlanes ::
  "'m Env \<Rightarrow> 'm ViewingSpace \<Rightarrow> Point3d \<Rightarrow> Vector3d \<Rightarrow> Point3d \<times> Vector3d" where
  "adjustZPlanes env this origin delta =
     (let v = view this in
      if \<not> is3d v then (origin, delta)
      else
        let extents0 = extendRangeForDisplayedPlanes env this (getViewedExtents env v) in
        if isNull extents0 then (origin, delta)
        else
          let extFrust = multiplyFrustum (rotation this) (fromRange extents0);
              extents = toRange extFrust;
              origin1 = multiplyVectorInPlace (rotation this) origin;
              origin2 = origin1\<lparr>xyz_z := xyz_z (low extents)\<rparr>;
              delta1 = delta\<lparr>xyz_z := xyz_z (high extents) - xyz_z origin2\<rparr>;
              origin3 = multiplyTransposeVectorInPlace (rotation this) origin2
          in
          if \<not> isCameraOn v then (origin3, delta1)
          else
            let eyeOrg = multiplyVectorInPlace (rotation this) (minus (eye (camera v)) origin3) in
            if xyz_z eyeOrg < 1 then
              let origin4 = multiplyVectorInPlace (rotation this) origin3;
                  origin5 = origin4\<lparr>xyz_z := xyz_z origin4 - (2 - xyz_z eyeOrg)\<rparr>;
                  origin6 = multiplyTransposeVectorInPlace (rotation this) origin5
              in (origin6, delta1\<lparr>xyz_z := 1\<rparr>)
            else if xyz_z delta1 > xyz_z eyeOrg then (origin3, delta1\<lparr>xyz_z := xyz_z eyeOrg\<rparr>)
            else (origin3, delta1))"

definition getViewCorners :: "'m ViewingSpace \<Rightarrow> Range3d" where
  "getViewCorners this =
     (let viewRect = initViewRect 0 0 (clientWidth this) (clientHeight this) in
      \<lparr>low = createXYZ 0 (real_of_int (bottom viewRect)) (- 32767),
       high = createXYZ (real_of_int (right viewRect)) 0 32767\<rparr>)"

text \<open>Modelled from the spec: the function \<^verbatim>\<open>assert\<close> (bentleyjs-core) is not
  among the sources. An assertion raises an error when its condition is false; the
  error leaves \<^verbatim>\<open>calcNpcToView\<close>, the constructor and the factory function that
  called it, none of which catches it.\<close>

datatype error = AssertionError

text \<open>\<^verbatim>\<open>calcNpcToView\<close>. With no box map the assertion of line 224 raises, so
  the \<^verbatim>\<open>return\<close> statement of line 225 is reached with a map only, and its
  conditional yields that map.\<close>

definition calcNpcToView :: "'m Env \<Rightarrow> 'm ViewingSpace \<Rightarrow> error + 'm Map4d" where
  "calcNpcToView env this =
     (let corners = getViewCorners this in
      case createBoxMap env (NpcCorners ! 0) (NpcCorners ! 7) (low corners) (high corners) of
        None \<Rightarrow> Inl AssertionError
      | Some m \<Rightarrow> Inr m)"

definition clampRange :: "ExtentLimits \<Rightarrow> real \<Rightarrow> real" where
  "clampRange limits val = min (max (limits_min limits) val) (limits_max limits)"

text \<open>The constructor, lines 242 to 266: the fields before the branch on the kind
  of view. The maps start as the identity, the frustum fraction as 1.\<close>

definition initialSpace ::
  "'m Env \<Rightarrow> Viewport \<Rightarrow> Plane3dByOriginAndUnitNormal list \<Rightarrow> 'm ViewingSpace" where
  "initialSpace env vp planes =
     (let v = vp_view vp;
          origin = getOrigin v;
          delta0 = getExtents v;
          delta1 = createXYZ (abs (xyz_x delta0)) (abs (xyz_y delta0)) (abs (xyz_z delta0));
          limits = extentLimits v;
          delta = delta1\<lparr>xyz_x := clampRange limits (xyz_x delta1),
                         xyz_y := clampRange limits (xyz_y delta1)\<rparr>
      in \<lparr>frustFraction = 1,
          viewOrigin = origin, viewDelta = delta,
          viewOriginUnexpanded = origin, viewDeltaUnexpanded = delta,
          rotation = getRotation v,
          worldToViewMap = createIdentity env, worldToNpcMap = createIdentity env,
          zClipAdjusted = False,
          view = v,
          clientWidth = width (viewRect vp), clientHeight = height (viewRect vp),
          displayedPlanes = planes\<rparr>)"

text \<open>The constructor, lines 270 to 282: a 3D view that does not allow 3D
  manipulations. Each part of the branch on the kind of view returns the object and
  the local \<^verbatim>\<open>origin\<close> and \<^verbatim>\<open>delta\<close>.\<close>

definition volumeWithoutManipulations ::
  "'m Env \<Rightarrow> 'm ViewingSpace \<Rightarrow> Point3d \<Rightarrow> Vector3d \<Rightarrow> 'm ViewingSpace \<times> Point3d \<times> Vector3d" where
  "volumeWithoutManipulations env this0 origin delta =
     (let this1 = alignWithRootZ this0;
          extents0 = getViewedExtents env (view this1);
          extents =
            (if isNull extents0
             then \<lparr>low = (low extents0)\<lparr>xyz_z := - frustumDepth2d\<rparr>,
                   high = (high extents0)\<lparr>xyz_z := frustumDepth2d\<rparr>\<rparr>
             else extents0);
          zMax0 = max (abs (xyz_z (low extents))) (abs (xyz_z (high extents)));
          zMax = max zMax0 1
      in (this1, origin\<lparr>xyz_z := - zMax\<rparr>, delta\<lparr>xyz_z := 2 * zMax\<rparr>))"

text \<open>The constructor, lines 290 to 304: with the camera on, the origin is moved
  away from the eye until the front plane is the minimum distance from it.\<close>

definition keepFrontDistance :: "'m ViewingSpace \<Rightarrow> Point3d \<Rightarrow> Vector3d \<Rightarrow> Point3d" where
  "keepFrontDistance this1 origin1 delta1 =
     (let v = view this1 in
      if isCameraOn v then
        let eyeOrg = toViewOrientation this1 (minus (eye (camera v)) origin1);
            frontDist = xyz_z eyeOrg - xyz_z delta1;
            minFrontDist = max (152 / 10 * oneCentimeter) (forceMinFrontDist v)
        in if frontDist < minFrontDist then
             let o1 = toViewOrientation this1 origin1;
                 o2 = o1\<lparr>xyz_z := xyz_z o1 - (minFrontDist - frontDist)\<rparr>
             in fromViewOrientation this1 o2
           else origin1
      else origin1)"

text \<open>The constructor, lines 284 to 308: a 3D view that allows 3D manipulations.\<close>

definition volumeWithManipulations ::
  "'m Env \<Rightarrow> 'm ViewingSpace \<Rightarrow> Point3d \<Rightarrow> Vector3d \<Rightarrow> 'm ViewingSpace \<times> Point3d \<times> Vector3d" where
  "volumeWithManipulations env this0 origin delta =
     (let this1 = (if isCameraOn (view this0) then validateCamera env this0 else this0);
          od = adjustZPlanes env this1 origin delta;
          origin2 = keepFrontDistance this1 (fst od) (snd od);
          delta1 = snd od;
          this2 =
            (if \<not> isExactEqual origin2 (viewOriginUnexpanded this1)
                \<or> \<not> isExactEqual delta1 (viewDeltaUnexpanded this1)
             then this1\<lparr>zClipAdjusted := True\<rparr> else this1)
      in (this2, origin2, delta1))"

text \<open>The constructor, lines 268 to 314: the branch on the kind of view.\<close>

definition adjustVolume ::
  "'m Env \<Rightarrow> 'm ViewingSpace \<Rightarrow> Point3d \<Rightarrow> Vector3d \<Rightarrow> 'm ViewingSpace \<times> Point3d \<times> Vector3d" where
  "adjustVolume env this0 origin delta =
     (if is3d (view this0) then
        if \<not> allow3dManipulations (view this0)
        then volumeWithoutManipulations env this0 origin delta
        else volumeWithManipulations env this0 origin delta
      else
        let this1 = alignWithRootZ this0
        in (this1, origin\<lparr>xyz_z := - frustumDepth2d\<rparr>, delta\<lparr>xyz_z := 2 * frustumDepth2d\<rparr>))"

text \<open>The constructor, lines 242 to 317: the object once the view volume is set.
  The view it holds is the source view as construction leaves it; nothing after line
  317 touches the view.\<close>

definition volumeSpace ::
  "'m Env \<Rightarrow> Viewport \<Rightarrow> Plane3dByOriginAndUnitNormal list \<Rightarrow> 'm ViewingSpace" where
  "volumeSpace env vp planes =
     (let this0 = initialSpace env vp planes;
          adj = adjustVolume env this0 (viewOrigin this0) (viewDelta this0);
          this1 = fst adj;
          origin = fst (snd adj);
          delta = snd (snd adj)
      in this1\<lparr>viewOrigin := origin, viewDelta := delta\<rparr>)"

text \<open>The constructor \<^verbatim>\<open>new ViewingSpace(vp, displayedPlanes)\<close>: it returns the
  object, or raises where \<^verbatim>\<open>calcNpcToView\<close> does. At the call of the map builder
  the local \<^verbatim>\<open>origin\<close> and \<^verbatim>\<open>delta\<close> are the origin and the delta just stored.\<close>

definition newViewingSpace ::
  "'m Env \<Rightarrow> Viewport \<Rightarrow> Plane3dByOriginAndUnitNormal list \<Rightarrow> error + 'm ViewingSpace" where
  "newViewingSpace env vp planes =
     (let this2 = volumeSpace env vp planes;
          newRootToNpc = computeWorldToNpc env (view this2) (rotation this2) (viewOrigin this2)
                           (viewDelta this2) (length planes = 0)
      in case fst newRootToNpc of
           None \<Rightarrow> Inr (this2\<lparr>frustFraction := 0\<rparr>)
         | Some m \<Rightarrow>
             let this3 = this2\<lparr>worldToNpcMap := m, frustFraction := snd newRootToNpc\<rparr>
             in case calcNpcToView env this3 of
                  Inl e \<Rightarrow> Inl e
                | Inr npcToViewMap \<Rightarrow>
                    Inr (this3\<lparr>worldToViewMap :=
                                multiplyMapMap env npcToViewMap (worldToNpcMap this3)\<rparr>))"

definition createFromViewport :: "'m Env \<Rightarrow> Viewport \<Rightarrow> error + 'm ViewingSpace option" where
  "createFromViewport env vp =
     (case newViewingSpace env vp (getDisplayedPlanes vp) of
        Inl e \<Rightarrow> Inl e
      | Inr vs \<Rightarrow> Inr (Some vs))"

definition createFromViewportAndPlane ::
  "'m Env \<Rightarrow> Viewport \<Rightarrow> Plane3dByOriginAndUnitNormal \<Rightarrow> error + 'm ViewingSpace option" where
  "createFromViewportAndPlane env vp plane =
     (let planes = getDisplayedPlanes vp @ [plane] in
      case newViewingSpace env vp planes of
        Inl e \<Rightarrow> Inl e
      | Inr vf \<Rightarrow> Inr (if 0 = frustFraction vf then None else Some vf))"

subsection \<open>Conversions and the frustum query\<close>

definition npcToView :: "'m ViewingSpace \<Rightarrow> Point3d \<Rightarrow> Point3d" where
  "npcToView this pt =
     (let corners = getViewCorners this in fractionToPoint corners (xyz_x pt) (xyz_y pt) (xyz_z pt))"

definition npcToViewArray :: "'m ViewingSpace \<Rightarrow> Point3d list \<Rightarrow> Point3d list" where
  "npcToViewArray this pts =
     (let corners = getViewCorners this
      in map (\<lambda>p. fractionToPoint corners (xyz_x p) (xyz_y p) (xyz_z p)) pts)"

definition worldToNpcArray :: "'m Env \<Rightarrow> 'm ViewingSpace \<Rightarrow> Point3d list \<Rightarrow> Point3d list" where
  "worldToNpcArray env this pts =
     map (multiplyPoint3dQuietNormalize env (transform0 (worldToNpcMap this))) pts"

definition npcToWorldArray :: "'m Env \<Rightarrow> 'm ViewingSpace \<Rightarrow> Point3d list \<Rightarrow> Point3d list" where
  "npcToWorldArray env this pts =
     map (multiplyPoint3dQuietNormalize env (transform1 (worldToNpcMap this))) pts"

text \<open>\<^verbatim>\<open>getFrustum(sys, adjustedBox, box)\<close>. Whether a box is passed or not, the
  work starts from the corners of the unit NPC cube (\<^verbatim>\<open>initNpc\<close>, or a new
  frustum). The default of the fourth argument of \<^verbatim>\<open>computeWorldToNpc\<close> is true.\<close>

definition convertFrustum ::
  "'m Env \<Rightarrow> 'm ViewingSpace \<Rightarrow> CoordSystem \<Rightarrow> Frustum \<Rightarrow> Frustum" where
  "convertFrustum env this sys box =
     (case sys of
        View \<Rightarrow> npcToViewArray this box
      | World \<Rightarrow> npcToWorldArray env this box
      | Npc \<Rightarrow> box)"

definition getFrustum ::
  "'m Env \<Rightarrow> 'm ViewingSpace \<Rightarrow> CoordSystem \<Rightarrow> bool \<Rightarrow> Frustum option \<Rightarrow> Frustum" where
  "getFrustum env this sys adjustedBox box =
     (let box0 = NpcCorners in
      if \<not> adjustedBox \<and> zClipAdjusted this then
        (case fst (computeWorldToNpc env (view this) (rotation this) (viewOriginUnexpanded this)
                     (viewDeltaUnexpanded this) True) of
           None \<Rightarrow> box0
         | Some ueMap \<Rightarrow>
             let ueRootBox = map (multiplyPoint3dQuietNormalize env (transform1 ueMap)) NpcCorners;
                 ueNpcBox = worldToNpcArray env this ueRootBox
             in convertFrustum env this sys ueNpcBox)
      else convertFrustum env this sys box0)"

subsection \<open>Concrete views and viewports\<close>

text \<open>Inputs at which the theorems below are evaluated. The matrices of a
  \<^verbatim>\<open>Map4d\<close> are of type \<^typ>\<open>unit\<close> here. \<open>exampleEnv ok extents\<close> is an
  environment whose map builder yields a map exactly when \<open>ok\<close> holds and whose
  views all have the viewed extents \<open>extents\<close>; its focus distance is valid when
  positive, its rays meet no plane.\<close>

definition identityMatrix3d :: Matrix3d where
  "identityMatrix3d =
     \<lparr>rowX = createXYZ 1 0 0, rowY = createXYZ 0 1 0, rowZ = createXYZ 0 0 1\<rparr>"

definition unitMap :: "unit Map4d" where
  "unitMap = \<lparr>transform0 = (), transform1 = ()\<rparr>"

definition exampleEnv :: "bool \<Rightarrow> Range3d \<Rightarrow> unit Env" where
  "exampleEnv ok extents =
     \<lparr>computeWorldToNpc = (\<lambda>v rot origin delta enforce. (if ok then Some unitMap else None, 1 / 2)),
      getViewedExtents = (\<lambda>v. extents),
      getEyePoint = (\<lambda>v. eye (camera v)),
      validateLens = (\<lambda>c. c),
      isFocusValid = (\<lambda>c. 0 < focusDist c),
      intersectionWithPlane = (\<lambda>ray plane. None),
      multiplyPoint3dQuietNormalize = (\<lambda>m p. p),
      createBoxMap = (\<lambda>lowA highA lowB highB. Some unitMap),
      createIdentity = unitMap,
      multiplyMapMap = (\<lambda>a b. a)\<rparr>"

text \<open>The same environment with a box map builder that yields no map.\<close>

definition exampleEnvNoBox :: "unit Env" where
  "exampleEnvNoBox =
     (exampleEnv True \<lparr>low = createXYZ 1 1 1, high = createXYZ (- 1) (- 1) (- 1)\<rparr>)
       \<lparr>createBoxMap := (\<lambda>lowA highA lowB highB. None)\<rparr>"

definition nullRange :: Range3d where
  "nullRange = \<lparr>low = createXYZ 1 1 1, high = createXYZ (- 1) (- 1) (- 1)\<rparr>"

definition unitRange :: Range3d where
  "unitRange = \<lparr>low = createXYZ (- 1) (- 1) (- 1), high = createXYZ 1 1 1\<rparr>"

definition exampleCamera :: Camera where
  "exampleCamera = \<lparr>eye = createXYZ 0 0 (- 1 / 2), focusDist = 1, lens = 1\<rparr>"

definition exampleLimits :: ExtentLimits where
  "exampleLimits = \<lparr>limits_min = 1 / 1000, limits_max = 1000000\<rparr>"

text \<open>A 2D view with extents (100, 50, 7) and origin (3, 4, 5).\<close>

definition exampleView2d :: ViewState where
  "exampleView2d =
     \<lparr>getOrigin = createXYZ 3 4 5, getExtents = createXYZ 100 50 7,
      getRotation = identityMatrix3d, is3d = False, allow3dManipulations = False,
      isCameraOn = False, camera = exampleCamera, extentLimits = exampleLimits,
      forceMinFrontDist = 0\<rparr>"

text \<open>A 3D view that allows 3D manipulations, camera off, extents (4, 4, 1/2).\<close>

definition exampleView3d :: ViewState where
  "exampleView3d =
     \<lparr>getOrigin = createXYZ 0 0 0, getExtents = createXYZ 4 4 (1 / 2),
      getRotation = identityMatrix3d, is3d = True, allow3dManipulations = True,
      isCameraOn = False, camera = exampleCamera, extentLimits = exampleLimits,
      forceMinFrontDist = 0\<rparr>"

definition exampleViewport :: "ViewState \<Rightarrow> Viewport" where
  "exampleViewport v =
     \<lparr>vp_view = v, viewRect = initViewRect 0 0 800 600, getDisplayedPlanes = []\<rparr>"

text \<open>The 3D view with the camera on: the eye is half a unit behind the origin
  of the view. In \<open>exampleViewNoFocus\<close> the camera has no valid focus distance.\<close>

definition exampleViewCamera :: ViewState where
  "exampleViewCamera = exampleView3d\<lparr>isCameraOn := True\<rparr>"

definition exampleViewNoFocus :: ViewState where
  "exampleViewNoFocus =
     exampleView3d\<lparr>getExtents := createXYZ 0 0 2, isCameraOn := True,
                   camera := exampleCamera\<lparr>focusDist := 0\<rparr>\<rparr>"

text \<open>The 3D view without 3D manipulations.\<close>

definition exampleViewFlat :: ViewState where
  "exampleViewFlat = exampleView3d\<lparr>allow3dManipulations := False\<rparr>"

text \<open>Two 2D views: one turned a quarter about the world Z axis, whose third row is
  the world Z axis, and one looking along the world Y axis, whose third row is not.\<close>

definition exampleView2dTurned :: ViewState where
  "exampleView2dTurned =
     exampleView2d\<lparr>getRotation :=
       \<lparr>rowX = createXYZ 0 1 0, rowY = createXYZ (- 1) 0 0, rowZ = createXYZ 0 0 1\<rparr>\<rparr>"

definition exampleView2dFront :: ViewState where
  "exampleView2dFront =
     exampleView2d\<lparr>getRotation :=
       \<lparr>rowX = createXYZ 1 0 0, rowY = createXYZ 0 0 1, rowZ = createXYZ 0 (- 1) 0\<rparr>\<rparr>"

text \<open>The 3D view with the camera on, the eye at (0, 0, -4), and a matrix that
  scales by 2 in place of a rotation.\<close>

definition exampleViewScaled :: ViewState where
  "exampleViewScaled =
     exampleView3d\<lparr>getRotation :=
         \<lparr>rowX = createXYZ 2 0 0, rowY = createXYZ 0 2 0, rowZ = createXYZ 0 0 2\<rparr>,
       isCameraOn := True, camera := exampleCamera\<lparr>eye := createXYZ 0 0 (- 4)\<rparr>\<rparr>"

text \<open>Modelled from the spec: a rotation is orthonormal (its rows are unit vectors,
  perpendicular to each other).\<close>

definition isOrthonormal :: "Matrix3d \<Rightarrow> bool" where
  "isOrthonormal m =
     (dotProduct (rowX m) (rowX m) = 1 \<and> dotProduct (rowY m) (rowY m) = 1 \<and>
      dotProduct (rowZ m) (rowZ m) = 1 \<and> dotProduct (rowX m) (rowY m) = 0 \<and>
      dotProduct (rowX m) (rowZ m) = 0 \<and> dotProduct (rowY m) (rowZ m) = 0)"

section \<open>Properties\<close>

subsection \<open>Evaluation rules\<close>

lemmas geom_defs = createXYZ_def createZero_def unitZ_def plus_def minus_def plusScaled_def
  dotProduct_def crossProduct_def isExactEqual_def isSameCoordinate_def isAlmostEqual_def
  smallMetricDistance_def multiplyVectorInPlace_def multiplyTransposeVectorInPlace_def
  columnX_def columnY_def columnZ_def transpose_def createColumns_def setColumn2_def scaleXYZ_def
  isNull_def extendPoint_def fractionToPoint_def fromRange_def multiplyFrustum_def

lemmas ex_defs = identityMatrix3d_def unitMap_def exampleEnv_def exampleEnvNoBox_def nullRange_def
  unitRange_def
  exampleCamera_def exampleLimits_def exampleView2d_def exampleView3d_def exampleViewport_def
  exampleViewCamera_def exampleViewNoFocus_def exampleViewFlat_def exampleView2dTurned_def
  exampleView2dFront_def exampleViewScaled_def
  initViewRect_def width_def height_def

lemmas vs_defs = newViewingSpace_def volumeSpace_def initialSpace_def adjustVolume_def
  volumeWithoutManipulations_def volumeWithManipulations_def keepFrontDistance_def alignWithRootZ_def
  adjustZPlanes_def extendRangeForDisplayedPlanes_def validateCamera_def clampRange_def
  frustumDepth2d_def oneMeter_def oneCentimeter_def toViewOrientation_def fromViewOrientation_def
  calcNpcToView_def getViewCorners_def NpcCorners_def

subsection \<open>What each step of the constructor leaves alone\<close>

lemma isExactEqual_iff: "isExactEqual a b \<longleftrightarrow> a = b"
  by (auto simp: isExactEqual_def intro: XYZ.equality)

lemma alignWithRootZ_fields:
  "frustFraction (alignWithRootZ this) = frustFraction this"
  "viewOrigin (alignWithRootZ this) = viewOrigin this"
  "viewDelta (alignWithRootZ this) = viewDelta this"
  "viewOriginUnexpanded (alignWithRootZ this) = viewOriginUnexpanded this"
  "viewDeltaUnexpanded (alignWithRootZ this) = viewDeltaUnexpanded this"
  "zClipAdjusted (alignWithRootZ this) = zClipAdjusted this"
  "clientWidth (alignWithRootZ this) = clientWidth this"
  "clientHeight (alignWithRootZ this) = clientHeight this"
  "displayedPlanes (alignWithRootZ this) = displayedPlanes this"
  by (simp_all add: alignWithRootZ_def Let_def)

lemma alignWithRootZ_view:
  "view (alignWithRootZ this) =
     (if isAlmostEqual unitZ (rowZ (rotation this)) then view this
      else (view this)\<lparr>getRotation := rotation (alignWithRootZ this)\<rparr>)"
  by (simp add: alignWithRootZ_def Let_def)

lemma alignWithRootZ_noop:
  "isAlmostEqual unitZ (rowZ (rotation this)) \<Longrightarrow> alignWithRootZ this = this"
  by (simp add: alignWithRootZ_def Let_def)

lemma validateCamera_fields:
  "frustFraction (validateCamera env this) = frustFraction this"
  "viewOrigin (validateCamera env this) = viewOrigin this"
  "viewDelta (validateCamera env this) = viewDelta this"
  "viewOriginUnexpanded (validateCamera env this) = viewOriginUnexpanded this"
  "viewDeltaUnexpanded (validateCamera env this) = viewDeltaUnexpanded this"
  "zClipAdjusted (validateCamera env this) = zClipAdjusted this"
  "rotation (validateCamera env this) = rotation this"
  "clientWidth (validateCamera env this) = clientWidth this"
  "clientHeight (validateCamera env this) = clientHeight this"
  "displayedPlanes (validateCamera env this) = displayedPlanes this"
  by (simp_all add: validateCamera_def Let_def)

lemma validateCamera_view:
  "getOrigin (view (validateCamera env this)) = getOrigin (view this)"
  "getExtents (view (validateCamera env this)) = getExtents (view this)"
  "getRotation (view (validateCamera env this)) = getRotation (view this)"
  "is3d (view (validateCamera env this)) = is3d (view this)"
  "allow3dManipulations (view (validateCamera env this)) = allow3dManipulations (view this)"
  "isCameraOn (view (validateCamera env this)) = isCameraOn (view this)"
  "extentLimits (view (validateCamera env this)) = extentLimits (view this)"
  "forceMinFrontDist (view (validateCamera env this)) = forceMinFrontDist (view this)"
  by (simp_all add: validateCamera_def Let_def)

lemma volumeWithManipulations_fst:
  "fst (volumeWithManipulations env this origin delta) =
     (if isCameraOn (view this) then validateCamera env this else this)
       \<lparr>zClipAdjusted := zClipAdjusted (fst (volumeWithManipulations env this origin delta))\<rparr>"
  by (simp add: volumeWithManipulations_def Let_def)

lemma volumeWithManipulations_flag:
  "zClipAdjusted (fst (volumeWithManipulations env this origin delta)) \<longleftrightarrow>
     zClipAdjusted this \<or>
     fst (snd (volumeWithManipulations env this origin delta)) \<noteq> viewOriginUnexpanded this \<or>
     snd (snd (volumeWithManipulations env this origin delta)) \<noteq> viewDeltaUnexpanded this"
  by (auto simp add: volumeWithManipulations_def Let_def validateCamera_fields isExactEqual_iff)

lemma volumeWithoutManipulations_fst:
  "fst (volumeWithoutManipulations env this origin delta) = alignWithRootZ this"
  by (simp add: volumeWithoutManipulations_def Let_def)

lemma adjustVolume_fst:
  "fst (adjustVolume env this origin delta) =
     (if is3d (view this) \<and> allow3dManipulations (view this)
      then (if isCameraOn (view this) then validateCamera env this else this)
             \<lparr>zClipAdjusted := zClipAdjusted (fst (adjustVolume env this origin delta))\<rparr>
      else alignWithRootZ this)"
  using volumeWithManipulations_fst [of env this origin delta]
  by (simp add: adjustVolume_def Let_def volumeWithoutManipulations_fst)

lemma adjustVolume_unexpanded:
  "viewOriginUnexpanded (fst (adjustVolume env this origin delta)) = viewOriginUnexpanded this"
  "viewDeltaUnexpanded (fst (adjustVolume env this origin delta)) = viewDeltaUnexpanded this"
  "clientWidth (fst (adjustVolume env this origin delta)) = clientWidth this"
  "clientHeight (fst (adjustVolume env this origin delta)) = clientHeight this"
  by (subst adjustVolume_fst, simp add: alignWithRootZ_fields validateCamera_fields)+

lemma adjustVolume_view:
  "view (fst (adjustVolume env this origin delta)) =
     (if is3d (view this) \<and> allow3dManipulations (view this)
      then (if isCameraOn (view this) then view (validateCamera env this) else view this)
      else view (alignWithRootZ this))"
  by (subst adjustVolume_fst) simp

lemma adjustVolume_rotation:
  "rotation (fst (adjustVolume env this origin delta)) =
     (if is3d (view this) \<and> allow3dManipulations (view this)
      then rotation this else rotation (alignWithRootZ this))"
  by (subst adjustVolume_fst) (simp add: validateCamera_fields)

lemma adjustVolume_view_flags:
  "is3d (view (fst (adjustVolume env this origin delta))) = is3d (view this)"
  "allow3dManipulations (view (fst (adjustVolume env this origin delta))) =
     allow3dManipulations (view this)"
  "isCameraOn (view (fst (adjustVolume env this origin delta))) = isCameraOn (view this)"
  "getOrigin (view (fst (adjustVolume env this origin delta))) = getOrigin (view this)"
  "getExtents (view (fst (adjustVolume env this origin delta))) = getExtents (view this)"
  "extentLimits (view (fst (adjustVolume env this origin delta))) = extentLimits (view this)"
  "forceMinFrontDist (view (fst (adjustVolume env this origin delta))) =
     forceMinFrontDist (view this)"
  by (simp_all add: adjustVolume_view alignWithRootZ_view validateCamera_view)

lemma volumeSpace_fields:
  "viewOriginUnexpanded (volumeSpace env vp planes) =
     viewOriginUnexpanded (fst (adjustVolume env (initialSpace env vp planes)
        (viewOrigin (initialSpace env vp planes)) (viewDelta (initialSpace env vp planes))))"
  "viewDeltaUnexpanded (volumeSpace env vp planes) =
     viewDeltaUnexpanded (fst (adjustVolume env (initialSpace env vp planes)
        (viewOrigin (initialSpace env vp planes)) (viewDelta (initialSpace env vp planes))))"
  "zClipAdjusted (volumeSpace env vp planes) =
     zClipAdjusted (fst (adjustVolume env (initialSpace env vp planes)
        (viewOrigin (initialSpace env vp planes)) (viewDelta (initialSpace env vp planes))))"
  "view (volumeSpace env vp planes) =
     view (fst (adjustVolume env (initialSpace env vp planes)
        (viewOrigin (initialSpace env vp planes)) (viewDelta (initialSpace env vp planes))))"
  "rotation (volumeSpace env vp planes) =
     rotation (fst (adjustVolume env (initialSpace env vp planes)
        (viewOrigin (initialSpace env vp planes)) (viewDelta (initialSpace env vp planes))))"
  "clientWidth (volumeSpace env vp planes) =
     clientWidth (fst (adjustVolume env (initialSpace env vp planes)
        (viewOrigin (initialSpace env vp planes)) (viewDelta (initialSpace env vp planes))))"
  "clientHeight (volumeSpace env vp planes) =
     clientHeight (fst (adjustVolume env (initialSpace env vp planes)
        (viewOrigin (initialSpace env vp planes)) (viewDelta (initialSpace env vp planes))))"
  "viewOrigin (volumeSpace env vp planes) =
     fst (snd (adjustVolume env (initialSpace env vp planes)
        (viewOrigin (initialSpace env vp planes)) (viewDelta (initialSpace env vp planes))))"
  "viewDelta (volumeSpace env vp planes) =
     snd (snd (adjustVolume env (initialSpace env vp planes)
        (viewOrigin (initialSpace env vp planes)) (viewDelta (initialSpace env vp planes))))"
  by (simp_all add: volumeSpace_def Let_def)

text \<open>A viewing space that the constructor returns has the volume, the rotation, the
  flag, the view and the pixel size of \<open>volumeSpace\<close>.\<close>

lemma newViewingSpace_Inr:
  assumes "newViewingSpace env vp planes = Inr vs"
  shows "viewOrigin vs = viewOrigin (volumeSpace env vp planes)"
    and "viewDelta vs = viewDelta (volumeSpace env vp planes)"
    and "viewOriginUnexpanded vs = viewOriginUnexpanded (volumeSpace env vp planes)"
    and "viewDeltaUnexpanded vs = viewDeltaUnexpanded (volumeSpace env vp planes)"
    and "rotation vs = rotation (volumeSpace env vp planes)"
    and "zClipAdjusted vs = zClipAdjusted (volumeSpace env vp planes)"
    and "view vs = view (volumeSpace env vp planes)"
    and "clientWidth vs = clientWidth (volumeSpace env vp planes)"
    and "clientHeight vs = clientHeight (volumeSpace env vp planes)"
  using assms
  by (auto simp add: newViewingSpace_def Let_def split: option.splits sum.splits)

lemma initialSpace_fields:
  "viewOriginUnexpanded (initialSpace env vp planes) = getOrigin (vp_view vp)"
  "viewOrigin (initialSpace env vp planes) = getOrigin (vp_view vp)"
  "viewDeltaUnexpanded (initialSpace env vp planes) =
     createXYZ (clampRange (extentLimits (vp_view vp)) (abs (xyz_x (getExtents (vp_view vp)))))
               (clampRange (extentLimits (vp_view vp)) (abs (xyz_y (getExtents (vp_view vp)))))
               (abs (xyz_z (getExtents (vp_view vp))))"
  "viewDelta (initialSpace env vp planes) = viewDeltaUnexpanded (initialSpace env vp planes)"
  "view (initialSpace env vp planes) = vp_view vp"
  "rotation (initialSpace env vp planes) = getRotation (vp_view vp)"
  "zClipAdjusted (initialSpace env vp planes) = False"
  "clientWidth (initialSpace env vp planes) = width (viewRect vp)"
  "clientHeight (initialSpace env vp planes) = height (viewRect vp)"
  "displayedPlanes (initialSpace env vp planes) = planes"
  by (simp_all add: initialSpace_def Let_def createXYZ_def)

lemma adjustVolume_zClipAdjusted:
  "\<not> zClipAdjusted this \<Longrightarrow>
   zClipAdjusted (fst (adjustVolume env this origin delta)) \<longleftrightarrow>
     (is3d (view this) \<and> allow3dManipulations (view this) \<and>
      (fst (snd (adjustVolume env this origin delta)) \<noteq> viewOriginUnexpanded this \<or>
       snd (snd (adjustVolume env this origin delta)) \<noteq> viewDeltaUnexpanded this))"
  by (simp add: adjustVolume_def Let_def volumeWithManipulations_flag
      volumeWithoutManipulations_fst alignWithRootZ_fields)

lemma adjustVolume_no_manipulation:
  "is3d (view this) \<Longrightarrow> \<not> allow3dManipulations (view this) \<Longrightarrow>
   xyz_z (snd (snd (adjustVolume env this origin delta))) \<ge> 2"
  by (simp add: adjustVolume_def volumeWithoutManipulations_def Let_def)

lemma adjustVolume_2d:
  "\<not> is3d (view this) \<Longrightarrow>
   adjustVolume env this origin delta =
     (alignWithRootZ this, origin\<lparr>xyz_z := - frustumDepth2d\<rparr>,
      delta\<lparr>xyz_z := 2 * frustumDepth2d\<rparr>)"
  by (simp add: adjustVolume_def Let_def)

subsection \<open>The alignment with the world Z axis\<close>

lemma magnitude_unitZ: "magnitude unitZ = 1"
  by (simp add: magnitude_def dotProduct_def unitZ_def createXYZ_def)

lemma columnZ_createColumns: "columnZ (createColumns cx cy cz) = cz"
  by (simp add: columnZ_def createColumns_def transpose_def columnX_def columnY_def createXYZ_def)

lemma columnZ_setColumn2: "columnZ (setColumn2 m v) = v"
  by (simp add: setColumn2_def columnZ_createColumns)

lemma rowZ_transpose: "rowZ (transpose m) = columnZ m"
  by (simp add: transpose_def)

lemma scale_unitZ: "scaleXYZ unitZ 1 = unitZ"
  by (simp add: scaleXYZ_def unitZ_def createXYZ_def)

lemma columnZ_createRigid:
  "columnZ r = unitZ \<Longrightarrow> columnZ (createRigidFromMatrix3d_ZXY r) = unitZ"
  by (simp add: createRigidFromMatrix3d_ZXY_def Let_def columnZ_createColumns magnitude_unitZ
      scale_unitZ)

lemma alignWithRootZ_rowZ:
  "rowZ (rotation (alignWithRootZ this)) =
     (if isAlmostEqual unitZ (rowZ (rotation this)) then rowZ (rotation this) else unitZ)"
  by (simp add: alignWithRootZ_def Let_def rowZ_transpose columnZ_createRigid columnZ_setColumn2)

lemma isAlmostEqual_refl: "isAlmostEqual a a"
  by (simp add: isAlmostEqual_def isSameCoordinate_def smallMetricDistance_def)

subsection \<open>Ranges and rotations\<close>






lemma orthonormal_round_trip:
  assumes "isOrthonormal m"
  shows "multiplyVectorInPlace m (multiplyTransposeVectorInPlace m w) = w"
proof (rule XYZ.equality)
  have e: "dotProduct (rowX m) (rowX m) = 1" "dotProduct (rowY m) (rowY m) = 1"
      "dotProduct (rowZ m) (rowZ m) = 1" "dotProduct (rowX m) (rowY m) = 0"
      "dotProduct (rowX m) (rowZ m) = 0" "dotProduct (rowY m) (rowZ m) = 0"
    using assms by (simp_all add: isOrthonormal_def)
  let ?v = "multiplyTransposeVectorInPlace m w"
  have "xyz_x (multiplyVectorInPlace m ?v) =
      xyz_x w * dotProduct (rowX m) (rowX m) + xyz_y w * dotProduct (rowX m) (rowY m)
      + xyz_z w * dotProduct (rowX m) (rowZ m)"
    by (simp add: multiplyVectorInPlace_def multiplyTransposeVectorInPlace_def dotProduct_def
        createXYZ_def algebra_simps)
  then show "xyz_x (multiplyVectorInPlace m ?v) = xyz_x w" by (simp add: e)
  have "xyz_y (multiplyVectorInPlace m ?v) =
      xyz_x w * dotProduct (rowX m) (rowY m) + xyz_y w * dotProduct (rowY m) (rowY m)
      + xyz_z w * dotProduct (rowY m) (rowZ m)"
    by (simp add: multiplyVectorInPlace_def multiplyTransposeVectorInPlace_def dotProduct_def
        createXYZ_def algebra_simps)
  then show "xyz_y (multiplyVectorInPlace m ?v) = xyz_y w" by (simp add: e)
  have "xyz_z (multiplyVectorInPlace m ?v) =
      xyz_x w * dotProduct (rowX m) (rowZ m) + xyz_y w * dotProduct (rowY m) (rowZ m)
      + xyz_z w * dotProduct (rowZ m) (rowZ m)"
    by (simp add: multiplyVectorInPlace_def multiplyTransposeVectorInPlace_def dotProduct_def
        createXYZ_def algebra_simps)
  then show "xyz_z (multiplyVectorInPlace m ?v) = xyz_z w" by (simp add: e)
  show "XYZ.more (multiplyVectorInPlace m ?v) = XYZ.more w" by simp
qed

lemma multiplyVector_minus:
  "multiplyVectorInPlace m (minus a b) =
     minus (multiplyVectorInPlace m a) (multiplyVectorInPlace m b)"
  by (simp add: multiplyVectorInPlace_def minus_def dotProduct_def createXYZ_def algebra_simps)

lemma minus_z: "xyz_z (minus a b) = xyz_z a - xyz_z b"
  by (simp add: minus_def createXYZ_def)

subsection \<open>The depth of the volume in each branch\<close>





lemma adjustZPlanes_null:
  "isNull (extendRangeForDisplayedPlanes env this (getViewedExtents env (view this))) \<Longrightarrow>
   adjustZPlanes env this origin delta = (origin, delta)"
  by (simp add: adjustZPlanes_def Let_def)

lemma adjustVolume_camera_off_null:
  assumes "is3d (view this)" and "allow3dManipulations (view this)" and "\<not> isCameraOn (view this)"
    and "isNull (getViewedExtents env (view this))" and "displayedPlanes this = []"
  shows "snd (snd (adjustVolume env this origin delta)) = delta"
proof -
  have "extendRangeForDisplayedPlanes env this (getViewedExtents env (view this)) =
          getViewedExtents env (view this)"
    using assms by (simp add: extendRangeForDisplayedPlanes_def)
  then have "adjustZPlanes env this origin delta = (origin, delta)"
    using assms by (simp add: adjustZPlanes_null)
  then show ?thesis
    using assms by (simp add: adjustVolume_def volumeWithManipulations_def Let_def)
qed

subsection \<open>What construction does to the view\<close>

lemma adjustVolume_rotation_view:
  "rotation this = getRotation (view this) \<Longrightarrow>
   getRotation (view (fst (adjustVolume env this origin delta))) =
     rotation (fst (adjustVolume env this origin delta))"
  by (simp add: adjustVolume_view adjustVolume_rotation alignWithRootZ_view validateCamera_view
      alignWithRootZ_noop)

lemma adjustVolume_rotation_kept:
  "(is3d (view this) \<and> allow3dManipulations (view this)) \<or>
     isAlmostEqual unitZ (rowZ (rotation this)) \<Longrightarrow>
   getRotation (view (fst (adjustVolume env this origin delta))) = getRotation (view this)"
  by (auto simp add: adjustVolume_view alignWithRootZ_view validateCamera_view)

lemma adjustVolume_camera:
  "camera (view (fst (adjustVolume env this origin delta))) =
     (if is3d (view this) \<and> allow3dManipulations (view this) \<and> isCameraOn (view this)
      then camera (view (validateCamera env this)) else camera (view this))"
  by (simp add: adjustVolume_view alignWithRootZ_view)

lemma validateCamera_camera:
  "is3d (view this) \<Longrightarrow>
   lens (camera (view (validateCamera env this))) = lens (validateLens env (camera (view this))) \<and>
   (isFocusValid env (validateLens env (camera (view this))) \<longrightarrow>
      camera (view (validateCamera env this)) = validateLens env (camera (view this)))"
  by (simp add: validateCamera_def Let_def)

subsection \<open>The factory functions\<close>

lemma createFromViewport_defined: "createFromViewport env vp \<noteq> Inr None"
  by (simp add: createFromViewport_def split: sum.splits)

lemma createFromViewport_Inr:
  "newViewingSpace env vp (getDisplayedPlanes vp) = Inr vs \<Longrightarrow>
   createFromViewport env vp = Inr (Some vs)"
  by (simp add: createFromViewport_def)

lemma createFromViewportAndPlane_None_iff:
  "createFromViewportAndPlane env vp plane = Inr None \<longleftrightarrow>
     (\<exists>vf. newViewingSpace env vp (getDisplayedPlanes vp @ [plane]) = Inr vf \<and>
           frustFraction vf = 0)"
  by (auto simp add: createFromViewportAndPlane_def Let_def split: sum.splits)

lemma createFromViewportAndPlane_Some:
  "createFromViewportAndPlane env vp plane = Inr (Some vs) \<Longrightarrow> frustFraction vs \<noteq> 0"
  by (auto simp add: createFromViewportAndPlane_def Let_def split: sum.splits if_splits)

lemma newViewingSpace_no_map:
  "fst (computeWorldToNpc env (view (volumeSpace env vp planes))
          (rotation (volumeSpace env vp planes)) (viewOrigin (volumeSpace env vp planes))
          (viewDelta (volumeSpace env vp planes)) (length planes = 0)) = None \<Longrightarrow>
   newViewingSpace env vp planes = Inr ((volumeSpace env vp planes)\<lparr>frustFraction := 0\<rparr>)"
  by (simp add: newViewingSpace_def Let_def)

text \<open>The constructor raises exactly when the map builder of the view yields a map
  and the box map builder yields none for the view corners.\<close>

lemma newViewingSpace_raises_iff:
  "newViewingSpace env vp planes = Inl e \<longleftrightarrow>
     (fst (computeWorldToNpc env (view (volumeSpace env vp planes))
             (rotation (volumeSpace env vp planes)) (viewOrigin (volumeSpace env vp planes))
             (viewDelta (volumeSpace env vp planes)) (length planes = 0)) \<noteq> None \<and>
      createBoxMap env (createXYZ 0 0 0) (createXYZ 1 1 1)
        (createXYZ 0 (real_of_int (height (viewRect vp))) (- 32767))
        (createXYZ (real_of_int (width (viewRect vp))) 0 32767) = None)"
  by (cases e)
    (auto simp add: newViewingSpace_def calcNpcToView_def getViewCorners_def Let_def
      initViewRect_def volumeSpace_fields adjustVolume_unexpanded initialSpace_fields
      NpcCorners_def split: option.splits)

lemma createFromViewport_raises_iff:
  "createFromViewport env vp = Inl e \<longleftrightarrow>
   newViewingSpace env vp (getDisplayedPlanes vp) = Inl e"
  by (simp add: createFromViewport_def split: sum.splits)

subsection \<open>Evaluation at the concrete views\<close>

text \<open>In the example environment the constructor always returns.\<close>

lemma exampleEnv_newViewingSpace:
  "newViewingSpace (exampleEnv ok r) vp planes =
     Inr (if ok
          then (volumeSpace (exampleEnv ok r) vp planes)
                 \<lparr>worldToNpcMap := unitMap, frustFraction := 1 / 2, worldToViewMap := unitMap\<rparr>
          else (volumeSpace (exampleEnv ok r) vp planes)\<lparr>frustFraction := 0\<rparr>)"
  by (simp add: newViewingSpace_def calcNpcToView_def exampleEnv_def Let_def)

text \<open>With a box map builder that yields no map, the constructor and
  \<^verbatim>\<open>createFromViewport\<close> raise.\<close>

lemma exampleEnvNoBox_raises:
  "newViewingSpace exampleEnvNoBox (exampleViewport exampleView2d) [] = Inl AssertionError"
  "createFromViewport exampleEnvNoBox (exampleViewport exampleView2d) = Inl AssertionError"
  by (simp_all add: createFromViewport_def newViewingSpace_def calcNpcToView_def
      exampleEnvNoBox_def exampleEnv_def exampleViewport_def Let_def)


lemma fromRange_unit:
  "multiplyFrustum identityMatrix3d (fromRange unitRange) = fromRange unitRange"
  by (simp add: multiplyFrustum_def fromRange_def unitRange_def identityMatrix3d_def
      multiplyVectorInPlace_def dotProduct_def createXYZ_def Let_def)

lemma toRange_unit: "toRange (fromRange unitRange) = unitRange"
  by (simp add: fromRange_def unitRange_def extendPoint_def createXYZ_def Let_def)

lemma identity_multiply: "multiplyVectorInPlace identityMatrix3d p = p"
  by (simp add: identityMatrix3d_def multiplyVectorInPlace_def dotProduct_def createXYZ_def)

lemma identity_multiplyTranspose: "multiplyTransposeVectorInPlace identityMatrix3d p = p"
  by (simp add: identityMatrix3d_def multiplyTransposeVectorInPlace_def createXYZ_def)

lemma exampleSpace_fields:
  "view (initialSpace (exampleEnv ok r) (exampleViewport v) planes) = v"
  "rotation (initialSpace (exampleEnv ok r) (exampleViewport v) planes) = getRotation v"
  "displayedPlanes (initialSpace (exampleEnv ok r) (exampleViewport v) planes) = planes"
  by (simp_all add: initialSpace_fields exampleViewport_def)

lemma exampleEnv_extents: "getViewedExtents (exampleEnv ok r) v = r"
  by (simp add: exampleEnv_def)

lemma extendRange_no_planes:
  "displayedPlanes this = [] \<Longrightarrow> extendRangeForDisplayedPlanes env this r = r"
  by (simp add: extendRangeForDisplayedPlanes_def)

lemma exampleViewCamera_fields:
  "is3d exampleViewCamera" "isCameraOn exampleViewCamera" "allow3dManipulations exampleViewCamera"
  "getRotation exampleViewCamera = identityMatrix3d"
  "camera exampleViewCamera = exampleCamera"
  by (simp_all add: exampleViewCamera_def exampleView3d_def)

lemma identity_orthonormal: "isOrthonormal identityMatrix3d"
  by (simp add: isOrthonormal_def identityMatrix3d_def dotProduct_def createXYZ_def)

section \<open>The claims\<close>

lemmas eval_defs = vs_defs ex_defs geom_defs Let_def

text \<open>
  C1. The claim: both factory functions return no object exactly when the frustum
  fraction of the constructed viewing space is 0, and neither exposes a viewing
  space whose frustum fraction is 0. \<^verbatim>\<open>createFromViewportAndPlane\<close> does so
  (\<open>createFromViewportAndPlane_None_iff\<close>, \<open>createFromViewportAndPlane_Some\<close>);
  \<^verbatim>\<open>createFromViewport\<close> returns the object whatever its frustum fraction
  (\<open>createFromViewport_defined\<close>, \<open>createFromViewport_Inr\<close>). At a 2D view whose
  map builder yields no map, \<^verbatim>\<open>createFromViewport\<close> returns a viewing space whose
  frustum fraction is 0, where \<^verbatim>\<open>createFromViewportAndPlane\<close> returns none.
\<close>

theorem createFromViewport_exposes_invalid:
  "map_sum id (map_option frustFraction)
     (createFromViewport (exampleEnv False nullRange) (exampleViewport exampleView2d)) =
     Inr (Some 0) \<and>
   createFromViewportAndPlane (exampleEnv False nullRange) (exampleViewport exampleView2d)
     \<lparr>getOriginRef = createXYZ 0 0 0, getNormalRef = createXYZ 0 0 1\<rparr> = Inr None"
  by (simp add: createFromViewport_def createFromViewportAndPlane_def exampleEnv_newViewingSpace)

text \<open>
  C2, as amended. The flag \<open>zClipAdjusted\<close> of a constructed viewing space (one that
  the constructor returns) is set exactly when the view is 3D, allows 3D
  manipulations, and the origin or the delta differs from the unexpanded one. So the
  flag implies the difference for every view, and the converse holds for the 3D
  views that allow manipulations only.
\<close>

theorem zClipAdjusted_iff:
  assumes "newViewingSpace env vp planes = Inr vs"
  shows "zClipAdjusted vs \<longleftrightarrow>
     (is3d (vp_view vp) \<and> allow3dManipulations (vp_view vp) \<and>
      (viewOrigin vs \<noteq> viewOriginUnexpanded vs \<or> viewDelta vs \<noteq> viewDeltaUnexpanded vs))"
  by (simp add: newViewingSpace_Inr [OF assms] volumeSpace_fields adjustVolume_unexpanded
      adjustVolume_zClipAdjusted initialSpace_fields)

theorem zClipAdjusted_iff_witness:
  "(case newViewingSpace (exampleEnv True unitRange) (exampleViewport exampleView3d) [] of
      Inl e \<Rightarrow> False
    | Inr vs \<Rightarrow> zClipAdjusted vs \<and> viewOrigin vs \<noteq> viewOriginUnexpanded vs)"
proof -
  obtain vs where eq:
    "newViewingSpace (exampleEnv True unitRange) (exampleViewport exampleView3d) [] = Inr vs"
    by (simp add: exampleEnv_newViewingSpace)
  have d: "viewOrigin vs \<noteq> viewOriginUnexpanded vs"
    by (simp add: newViewingSpace_Inr [OF eq]) (simp add: eval_defs)
  show ?thesis
    unfolding eq using zClipAdjusted_iff [OF eq] d by (simp add: ex_defs)
qed

text \<open>The claim C2 as stated fails for a 2D view: its depth is replaced by the
  fixed band, and the flag stays false.\<close>

theorem zClipAdjusted_iff_counterexample:
  "(case newViewingSpace (exampleEnv True nullRange) (exampleViewport exampleView2d) [] of
      Inl e \<Rightarrow> False
    | Inr vs \<Rightarrow>
        \<not> (zClipAdjusted vs \<longleftrightarrow>
             (viewOrigin vs \<noteq> viewOriginUnexpanded vs \<or> viewDelta vs \<noteq> viewDeltaUnexpanded vs)))"
  by (simp add: exampleEnv_newViewingSpace) (simp add: eval_defs)

text \<open>
  C3, as amended. Construction changes the source view in two places only, whether
  the constructor returns or raises. The rotation is written back when the view is 2D
  or does not allow 3D manipulations and its third row is not already the world Z
  axis within the tolerance; the view's rotation is then the rotation of the viewing
  space. The camera is changed when the view is 3D, allows 3D manipulations and has
  its camera on: its lens is validated, and when its focus distance is not valid its
  eye point and focus distance are set. The origin, the extents, the flags, the
  extent limits and the minimum front distance of the view are never changed. A
  viewing space that the constructor returns holds this view and this rotation.
\<close>

theorem construction_frame:
  "getOrigin (view (volumeSpace env vp planes)) = getOrigin (vp_view vp) \<and>
   getExtents (view (volumeSpace env vp planes)) = getExtents (vp_view vp) \<and>
   is3d (view (volumeSpace env vp planes)) = is3d (vp_view vp) \<and>
   allow3dManipulations (view (volumeSpace env vp planes)) = allow3dManipulations (vp_view vp) \<and>
   isCameraOn (view (volumeSpace env vp planes)) = isCameraOn (vp_view vp) \<and>
   extentLimits (view (volumeSpace env vp planes)) = extentLimits (vp_view vp) \<and>
   forceMinFrontDist (view (volumeSpace env vp planes)) = forceMinFrontDist (vp_view vp) \<and>
   getRotation (view (volumeSpace env vp planes)) = rotation (volumeSpace env vp planes) \<and>
   ((is3d (vp_view vp) \<and> allow3dManipulations (vp_view vp)) \<or>
      isAlmostEqual unitZ (rowZ (getRotation (vp_view vp))) \<longrightarrow>
      getRotation (view (volumeSpace env vp planes)) = getRotation (vp_view vp)) \<and>
   (\<not> (is3d (vp_view vp) \<and> allow3dManipulations (vp_view vp) \<and> isCameraOn (vp_view vp)) \<longrightarrow>
      camera (view (volumeSpace env vp planes)) = camera (vp_view vp)) \<and>
   (is3d (vp_view vp) \<and> allow3dManipulations (vp_view vp) \<and> isCameraOn (vp_view vp) \<longrightarrow>
      lens (camera (view (volumeSpace env vp planes))) =
        lens (validateLens env (camera (vp_view vp))) \<and>
      (isFocusValid env (validateLens env (camera (vp_view vp))) \<longrightarrow>
         camera (view (volumeSpace env vp planes)) = validateLens env (camera (vp_view vp)))) \<and>
   (newViewingSpace env vp planes = Inr vs \<longrightarrow>
      view vs = view (volumeSpace env vp planes) \<and>
      rotation vs = rotation (volumeSpace env vp planes))"
proof -
  let ?t = "initialSpace env vp planes"
  have r: "rotation ?t = getRotation (view ?t)" by (simp add: initialSpace_fields)
  have k: "(is3d (vp_view vp) \<and> allow3dManipulations (vp_view vp)) \<or>
      isAlmostEqual unitZ (rowZ (getRotation (vp_view vp))) \<Longrightarrow>
      getRotation (view (fst (adjustVolume env ?t (viewOrigin ?t) (viewDelta ?t)))) =
      getRotation (vp_view vp)"
    using adjustVolume_rotation_kept [of ?t env "viewOrigin ?t" "viewDelta ?t"]
    by (simp add: initialSpace_fields)
  have c: "is3d (vp_view vp) \<Longrightarrow>
      lens (camera (view (validateCamera env ?t))) = lens (validateLens env (camera (vp_view vp))) \<and>
      (isFocusValid env (validateLens env (camera (vp_view vp))) \<longrightarrow>
         camera (view (validateCamera env ?t)) = validateLens env (camera (vp_view vp)))"
    using validateCamera_camera [of ?t env] by (simp add: initialSpace_fields)
  have l: "newViewingSpace env vp planes = Inr vs \<Longrightarrow>
      view vs = view (volumeSpace env vp planes) \<and>
      rotation vs = rotation (volumeSpace env vp planes)"
    by (simp add: newViewingSpace_Inr)
  show ?thesis
    using k c l adjustVolume_rotation_view [OF r]
    by (simp add: volumeSpace_fields adjustVolume_view_flags adjustVolume_camera
        initialSpace_fields)
qed

theorem construction_frame_witness:
  "\<not> is3d exampleView2d \<and> isAlmostEqual unitZ (rowZ (getRotation exampleView2d)) \<and>
   (case newViewingSpace (exampleEnv True nullRange) (exampleViewport exampleView2d) [] of
      Inl e \<Rightarrow> False
    | Inr vs \<Rightarrow> getRotation (view vs) = getRotation exampleView2d \<and>
               camera (view vs) = camera exampleView2d) \<and>
   is3d exampleViewCamera \<and> allow3dManipulations exampleViewCamera \<and> isCameraOn exampleViewCamera \<and>
   isFocusValid (exampleEnv True unitRange) (validateLens (exampleEnv True unitRange) (camera exampleViewCamera)) \<and>
   (case newViewingSpace (exampleEnv True unitRange) (exampleViewport exampleViewCamera) [] of
      Inl e \<Rightarrow> False
    | Inr vs \<Rightarrow> getRotation (view vs) = getRotation exampleViewCamera \<and>
               camera (view vs) = camera exampleViewCamera)"
proof -
  obtain vs2 where e2:
    "newViewingSpace (exampleEnv True nullRange) (exampleViewport exampleView2d) [] = Inr vs2"
    by (simp add: exampleEnv_newViewingSpace)
  obtain vs3 where e3:
    "newViewingSpace (exampleEnv True unitRange) (exampleViewport exampleViewCamera) [] = Inr vs3"
    by (simp add: exampleEnv_newViewingSpace)
  have a: "\<not> is3d exampleView2d \<and> isAlmostEqual unitZ (rowZ (getRotation exampleView2d))"
    by (simp add: ex_defs geom_defs)
  have c: "is3d exampleViewCamera \<and> allow3dManipulations exampleViewCamera \<and>
      isCameraOn exampleViewCamera \<and>
      isFocusValid (exampleEnv True unitRange)
        (validateLens (exampleEnv True unitRange) (camera exampleViewCamera))"
    by (simp add: ex_defs geom_defs)
  have d: "validateLens (exampleEnv True unitRange) (camera exampleViewCamera) =
      camera exampleViewCamera"
    by (simp add: exampleEnv_def)
  have v: "vp_view (exampleViewport exampleView2d) = exampleView2d"
    "vp_view (exampleViewport exampleViewCamera) = exampleViewCamera"
    by (simp_all add: exampleViewport_def)
  show ?thesis
    unfolding e2 e3
    using a c
      construction_frame [of "exampleEnv True nullRange" "exampleViewport exampleView2d" "[]" vs2]
      construction_frame [of "exampleEnv True unitRange" "exampleViewport exampleViewCamera" "[]" vs3]
    by (auto simp add: v d e2 e3)
qed

text \<open>The claim C3 as stated fails for a 3D view with the camera on whose focus
  distance is not valid: the rotation is not touched, and the eye point and the focus
  distance of the view's camera are replaced.\<close>

theorem construction_frame_counterexample:
  "(case newViewingSpace (exampleEnv True unitRange) (exampleViewport exampleViewNoFocus) [] of
      Inl e \<Rightarrow> False
    | Inr vs \<Rightarrow>
        getRotation (view vs) = getRotation exampleViewNoFocus \<and>
        focusDist (camera (view vs)) \<noteq> focusDist (camera exampleViewNoFocus) \<and>
        eye (camera (view vs)) \<noteq> eye (camera exampleViewNoFocus))"
proof -
  let ?t = "initialSpace (exampleEnv True unitRange) (exampleViewport exampleViewNoFocus) []"
  have v: "view (volumeSpace (exampleEnv True unitRange) (exampleViewport exampleViewNoFocus) []) =
      view (validateCamera (exampleEnv True unitRange) ?t)"
    by (simp add: volumeSpace_fields adjustVolume_view initialSpace_fields)
      (simp add: ex_defs)
  show ?thesis
    by (simp add: exampleEnv_newViewingSpace v)
      (simp add: validateCamera_def initialSpace_def fromViewOrientation_def
        ex_defs geom_defs Let_def)
qed

text \<open>
  C4, as amended. The unexpanded origin of a constructed viewing space is the origin
  of the source view. The unexpanded delta is the extents of the source view after
  the sign of each component is dropped and the x and y components are clamped to
  the extent limits; it is the view's extents when these are not negative and x and
  y lie within the limits.
\<close>

theorem unexpanded_volume:
  assumes "newViewingSpace env vp planes = Inr vs"
  shows "viewOriginUnexpanded vs = getOrigin (vp_view vp) \<and>
   viewDeltaUnexpanded vs =
     createXYZ (clampRange (extentLimits (vp_view vp)) (abs (xyz_x (getExtents (vp_view vp)))))
               (clampRange (extentLimits (vp_view vp)) (abs (xyz_y (getExtents (vp_view vp)))))
               (abs (xyz_z (getExtents (vp_view vp)))) \<and>
   (0 \<le> xyz_x (getExtents (vp_view vp)) \<and> 0 \<le> xyz_y (getExtents (vp_view vp)) \<and>
    0 \<le> xyz_z (getExtents (vp_view vp)) \<and>
    limits_min (extentLimits (vp_view vp)) \<le> xyz_x (getExtents (vp_view vp)) \<and>
    xyz_x (getExtents (vp_view vp)) \<le> limits_max (extentLimits (vp_view vp)) \<and>
    limits_min (extentLimits (vp_view vp)) \<le> xyz_y (getExtents (vp_view vp)) \<and>
    xyz_y (getExtents (vp_view vp)) \<le> limits_max (extentLimits (vp_view vp)) \<longrightarrow>
      viewDeltaUnexpanded vs = getExtents (vp_view vp))"
  by (simp add: newViewingSpace_Inr [OF assms] volumeSpace_fields adjustVolume_unexpanded
      initialSpace_fields clampRange_def createXYZ_def)

theorem unexpanded_volume_witness:
  "(case newViewingSpace (exampleEnv True nullRange) (exampleViewport exampleView2d) [] of
      Inl e \<Rightarrow> False
    | Inr vs \<Rightarrow> viewOriginUnexpanded vs = createXYZ 3 4 5 \<and>
               viewDeltaUnexpanded vs = createXYZ 100 50 7 \<and>
               viewDeltaUnexpanded vs = getExtents exampleView2d)"
proof -
  obtain vs where eq:
    "newViewingSpace (exampleEnv True nullRange) (exampleViewport exampleView2d) [] = Inr vs"
    by (simp add: exampleEnv_newViewingSpace)
  show ?thesis
    unfolding eq using unexpanded_volume [OF eq]
    by (simp add: ex_defs clampRange_def createXYZ_def)
qed

text \<open>The claim C4 as stated fails for a view whose extents have a negative
  component: the unexpanded delta holds its absolute value.\<close>

theorem unexpanded_volume_counterexample:
  "(case newViewingSpace (exampleEnv True nullRange)
       (exampleViewport (exampleView2d\<lparr>getExtents := createXYZ (- 100) 50 7\<rparr>)) [] of
      Inl e \<Rightarrow> False
    | Inr vs \<Rightarrow>
        viewDeltaUnexpanded vs = createXYZ 100 50 7 \<and>
        viewDeltaUnexpanded vs \<noteq>
          getExtents (vp_view (exampleViewport (exampleView2d\<lparr>getExtents := createXYZ (- 100) 50 7\<rparr>))))"
  by (simp add: exampleEnv_newViewingSpace) (simp add: eval_defs)

text \<open>
  C5, as amended. In \<^verbatim>\<open>adjustZPlanes\<close> for a 3D view with the camera on and viewed
  extents that are not null once extended for the displayed planes: when the eye is
  less than one unit in front of the origin (\<open>eyeOrg\<close>, the vector from the origin at
  the back of the extents to the eye, multiplied by the rotation), the function
  returns with the z component of the delta equal to 1 and the other components as
  they were, and with the origin that the transpose of the rotation gives from
  \<open>pushed\<close>: the origin at the back of the extents multiplied by the rotation, its z
  component lowered by \<open>2 - eyeOrg.z\<close>. For an orthonormal rotation the returned origin
  has exactly the view coordinates \<open>pushed\<close>, and the eye is exactly 2 units in front
  of it.
\<close>

theorem adjustZPlanes_too_close:
  fixes env :: "'m Env" and this :: "'m ViewingSpace" and origin :: Point3d and delta :: Vector3d
  defines "extents \<equiv> toRange (multiplyFrustum (rotation this) (fromRange
              (extendRangeForDisplayedPlanes env this (getViewedExtents env (view this)))))"
  defines "originBack \<equiv> multiplyTransposeVectorInPlace (rotation this)
              ((multiplyVectorInPlace (rotation this) origin)\<lparr>xyz_z := xyz_z (low extents)\<rparr>)"
  defines "eyeOrg \<equiv> multiplyVectorInPlace (rotation this)
              (minus (eye (camera (view this))) originBack)"
  defines "pushed \<equiv> (multiplyVectorInPlace (rotation this) originBack)
              \<lparr>xyz_z := xyz_z (multiplyVectorInPlace (rotation this) originBack)
                          - (2 - xyz_z eyeOrg)\<rparr>"
  assumes "is3d (view this)" and "isCameraOn (view this)"
    and "\<not> isNull (extendRangeForDisplayedPlanes env this (getViewedExtents env (view this)))"
    and "xyz_z eyeOrg < 1"
  shows "snd (adjustZPlanes env this origin delta) = delta\<lparr>xyz_z := 1\<rparr> \<and>
         fst (adjustZPlanes env this origin delta) =
           multiplyTransposeVectorInPlace (rotation this) pushed \<and>
         (isOrthonormal (rotation this) \<longrightarrow>
            multiplyVectorInPlace (rotation this) (fst (adjustZPlanes env this origin delta)) = pushed \<and>
            xyz_z (multiplyVectorInPlace (rotation this)
                     (minus (eye (camera (view this))) (fst (adjustZPlanes env this origin delta)))) = 2)"
proof -
  have r: "adjustZPlanes env this origin delta =
             (multiplyTransposeVectorInPlace (rotation this) pushed, delta\<lparr>xyz_z := 1\<rparr>)"
    using assms(5-8) unfolding extents_def originBack_def eyeOrg_def pushed_def
    by (simp add: adjustZPlanes_def Let_def)
  have o: "isOrthonormal (rotation this) \<Longrightarrow>
      xyz_z (multiplyVectorInPlace (rotation this)
        (minus (eye (camera (view this))) (multiplyTransposeVectorInPlace (rotation this) pushed))) = 2"
  proof -
    assume h: "isOrthonormal (rotation this)"
    have "xyz_z (multiplyVectorInPlace (rotation this)
        (minus (eye (camera (view this))) (multiplyTransposeVectorInPlace (rotation this) pushed)))
      = xyz_z (multiplyVectorInPlace (rotation this) (eye (camera (view this)))) - xyz_z pushed"
      by (simp add: multiplyVector_minus orthonormal_round_trip [OF h] minus_z)
    also have "xyz_z pushed =
        xyz_z (multiplyVectorInPlace (rotation this) originBack) - (2 - xyz_z eyeOrg)"
      by (simp add: pushed_def)
    also have "xyz_z eyeOrg =
        xyz_z (multiplyVectorInPlace (rotation this) (eye (camera (view this))))
          - xyz_z (multiplyVectorInPlace (rotation this) originBack)"
      by (simp add: eyeOrg_def multiplyVector_minus minus_z)
    finally show ?thesis by simp
  qed
  show ?thesis using o by (simp add: r orthonormal_round_trip)
qed

theorem adjustZPlanes_too_close_witness:
  "is3d exampleViewCamera \<and> isCameraOn exampleViewCamera \<and> isOrthonormal identityMatrix3d \<and>
   adjustZPlanes (exampleEnv True unitRange)
     (initialSpace (exampleEnv True unitRange) (exampleViewport exampleViewCamera) [])
     (createXYZ 0 0 0) (createXYZ 4 4 (1 / 2)) = (createXYZ 0 0 (- 5 / 2), createXYZ 4 4 1) \<and>
   xyz_z (multiplyVectorInPlace identityMatrix3d
           (minus (eye (camera exampleViewCamera))
              (fst (adjustZPlanes (exampleEnv True unitRange)
                (initialSpace (exampleEnv True unitRange) (exampleViewport exampleViewCamera) [])
                (createXYZ 0 0 0) (createXYZ 4 4 (1 / 2)))))) = 2"
proof -
  let ?env = "exampleEnv True unitRange"
  let ?t = "initialSpace ?env (exampleViewport exampleViewCamera) []"
  note ev = extendRange_no_planes exampleSpace_fields exampleEnv_extents exampleViewCamera_fields
    identity_multiply identity_multiplyTranspose fromRange_unit toRange_unit
  have h1: "is3d (view ?t)" and h2: "isCameraOn (view ?t)"
    by (simp_all add: ev)
  have h3: "\<not> isNull (extendRangeForDisplayedPlanes ?env ?t (getViewedExtents ?env (view ?t)))"
    by (simp add: ev, simp add: unitRange_def isNull_def createXYZ_def)
  have h4: "xyz_z (multiplyVectorInPlace (rotation ?t)
      (minus (eye (camera (view ?t)))
        (multiplyTransposeVectorInPlace (rotation ?t)
          ((multiplyVectorInPlace (rotation ?t) (createXYZ 0 0 0))
             \<lparr>xyz_z := xyz_z (low (toRange (multiplyFrustum (rotation ?t) (fromRange
                (extendRangeForDisplayedPlanes ?env ?t (getViewedExtents ?env (view ?t)))))))\<rparr>)))) < 1"
    by (simp add: ev, simp add: unitRange_def exampleCamera_def minus_def createXYZ_def)
  note claim = adjustZPlanes_too_close [OF h1 h2 h3 h4, of "createXYZ 4 4 (1 / 2)"]
  note s0 = conjunct1 [OF claim]
  note f0 = conjunct1 [OF conjunct2 [OF claim]]
  have r: "isOrthonormal (rotation ?t)"
    by (simp add: ev identity_orthonormal)
  note z0 = conjunct2 [OF mp [OF conjunct2 [OF conjunct2 [OF claim]] r]]
  have s: "snd (adjustZPlanes ?env ?t (createXYZ 0 0 0) (createXYZ 4 4 (1 / 2))) = createXYZ 4 4 1"
    by (subst s0) (simp add: createXYZ_def)
  have f: "fst (adjustZPlanes ?env ?t (createXYZ 0 0 0) (createXYZ 4 4 (1 / 2))) =
      createXYZ 0 0 (- 5 / 2)"
    by (subst f0) (simp add: ev, simp add: unitRange_def exampleCamera_def minus_def createXYZ_def)
  have z: "xyz_z (multiplyVectorInPlace identityMatrix3d
      (minus (eye (camera exampleViewCamera))
         (fst (adjustZPlanes ?env ?t (createXYZ 0 0 0) (createXYZ 4 4 (1 / 2)))))) = 2"
    using z0 by (simp add: ev)
  have a: "adjustZPlanes ?env ?t (createXYZ 0 0 0) (createXYZ 4 4 (1 / 2)) =
      (createXYZ 0 0 (- 5 / 2), createXYZ 4 4 1)"
    using s f by (simp add: prod_eq_iff)
  show ?thesis
    using a z identity_orthonormal exampleViewCamera_fields(1,2) by blast
qed

text \<open>The claim C5 as stated fails when the matrix of the view is not orthonormal.
  With the matrix that scales by 2, the viewed extents from -1 to 1 and the eye at
  (0, 0, -4): the origin at the back of the extents is (0, 0, -4), \<open>eyeOrg.z\<close> is 0,
  and the function returns the origin (0, 0, -20). The origin has moved by 16, by 32
  once multiplied by the matrix, where \<open>2 - eyeOrg.z\<close> is 2; and the eye is 32 in
  front of the returned origin along the view z axis, not 2.\<close>

theorem adjustZPlanes_too_close_counterexample:
  "is3d exampleViewScaled \<and> isCameraOn exampleViewScaled \<and>
   \<not> isNull (getViewedExtents (exampleEnv True unitRange) exampleViewScaled) \<and>
   multiplyTransposeVectorInPlace (getRotation exampleViewScaled)
     ((multiplyVectorInPlace (getRotation exampleViewScaled) (createXYZ 0 0 0))
        \<lparr>xyz_z := xyz_z (low (toRange (multiplyFrustum (getRotation exampleViewScaled)
                     (fromRange unitRange))))\<rparr>) = createXYZ 0 0 (- 4) \<and>
   xyz_z (multiplyVectorInPlace (getRotation exampleViewScaled)
            (minus (eye (camera exampleViewScaled)) (createXYZ 0 0 (- 4)))) = 0 \<and>
   adjustZPlanes (exampleEnv True unitRange)
     (initialSpace (exampleEnv True unitRange) (exampleViewport exampleViewScaled) [])
     (createXYZ 0 0 0) (createXYZ 4 4 (1 / 2)) = (createXYZ 0 0 (- 20), createXYZ 4 4 1) \<and>
   xyz_z (multiplyVectorInPlace (getRotation exampleViewScaled)
            (minus (eye (camera exampleViewScaled)) (createXYZ 0 0 (- 20)))) = 32"
proof -
  let ?env = "exampleEnv True unitRange"
  let ?R = "\<lparr>rowX = createXYZ 2 0 0, rowY = createXYZ 0 2 0, rowZ = createXYZ 0 0 2\<rparr>"
  let ?t = "initialSpace ?env (exampleViewport exampleViewScaled) []"
  have v: "is3d exampleViewScaled" "isCameraOn exampleViewScaled"
    "getRotation exampleViewScaled = ?R"
    "eye (camera exampleViewScaled) = createXYZ 0 0 (- 4)"
    by (simp_all add: exampleViewScaled_def exampleView3d_def)
  have m: "multiplyVectorInPlace ?R p = createXYZ (2 * xyz_x p) (2 * xyz_y p) (2 * xyz_z p)"
    "multiplyTransposeVectorInPlace ?R p = createXYZ (2 * xyz_x p) (2 * xyz_y p) (2 * xyz_z p)"
    for p
    by (simp_all add: multiplyVectorInPlace_def multiplyTransposeVectorInPlace_def
        dotProduct_def createXYZ_def)
  have f: "toRange (multiplyFrustum ?R (fromRange unitRange)) =
      \<lparr>low = createXYZ (- 2) (- 2) (- 2), high = createXYZ 2 2 2\<rparr>"
    by (simp add: multiplyFrustum_def fromRange_def unitRange_def multiplyVectorInPlace_def
        dotProduct_def extendPoint_def createXYZ_def Let_def)
  have n: "\<not> isNull unitRange"
    by (simp add: unitRange_def isNull_def createXYZ_def)
  have a: "adjustZPlanes ?env ?t (createXYZ 0 0 0) (createXYZ 4 4 (1 / 2)) =
      (createXYZ 0 0 (- 20), createXYZ 4 4 1)"
    by (simp add: adjustZPlanes_def Let_def extendRange_no_planes exampleSpace_fields
        exampleEnv_extents v n f m)
      (simp add: minus_def createXYZ_def)
  show ?thesis
    by (simp add: a v n f m exampleEnv_extents) (simp add: minus_def createXYZ_def)
qed

text \<open>
  C6, as amended. Constructing a viewing space for a 3D view that does not allow 3D
  manipulations yields a delta whose z component is at least 2, whatever the viewed
  extents and the camera. For a 3D view that allows 3D manipulations, with the camera
  off, null viewed extents and no displayed planes, the z component of the delta is
  the absolute value of the view's own z extent: there is no floor.
\<close>

theorem depth_floor:
  assumes "is3d (vp_view vp)" and "newViewingSpace env vp planes = Inr vs"
  shows "(\<not> allow3dManipulations (vp_view vp) \<longrightarrow> 2 \<le> xyz_z (viewDelta vs)) \<and>
         (allow3dManipulations (vp_view vp) \<and> \<not> isCameraOn (vp_view vp) \<and>
          isNull (getViewedExtents env (vp_view vp)) \<and> planes = [] \<longrightarrow>
            xyz_z (viewDelta vs) = abs (xyz_z (getExtents (vp_view vp))))"
  using assms(1)
  by (simp add: newViewingSpace_Inr [OF assms(2)] volumeSpace_fields adjustVolume_no_manipulation
      adjustVolume_camera_off_null initialSpace_fields createXYZ_def)

theorem depth_floor_witness:
  "is3d exampleViewFlat \<and> \<not> allow3dManipulations exampleViewFlat \<and> \<not> isCameraOn exampleViewFlat \<and>
   isNull (getViewedExtents (exampleEnv True nullRange) exampleViewFlat) \<and>
   (case newViewingSpace (exampleEnv True nullRange) (exampleViewport exampleViewFlat) [] of
      Inl e \<Rightarrow> False
    | Inr vs \<Rightarrow> 2 \<le> xyz_z (viewDelta vs))"
proof -
  obtain vs where eq:
    "newViewingSpace (exampleEnv True nullRange) (exampleViewport exampleViewFlat) [] = Inr vs"
    by (simp add: exampleEnv_newViewingSpace)
  have h: "is3d (vp_view (exampleViewport exampleViewFlat))" by (simp add: ex_defs)
  have n: "\<not> allow3dManipulations (vp_view (exampleViewport exampleViewFlat))" by (simp add: ex_defs)
  show ?thesis
    unfolding eq using depth_floor [OF h eq] n
    by (simp add: ex_defs isNull_def createXYZ_def)
qed

text \<open>The claim C6 as stated fails for a camera-off 3D view that allows 3D
  manipulations, with null viewed extents and no displayed planes: the z extent 1/2
  of the view is the z component of the delta.\<close>

theorem depth_floor_counterexample:
  "is3d exampleView3d \<and> \<not> isCameraOn exampleView3d \<and>
   isNull (getViewedExtents (exampleEnv True nullRange) exampleView3d) \<and>
   getDisplayedPlanes (exampleViewport exampleView3d) = [] \<and>
   map_sum id (map_option (\<lambda>vs. xyz_z (viewDelta vs)))
     (createFromViewport (exampleEnv True nullRange) (exampleViewport exampleView3d)) =
     Inr (Some (1 / 2))"
  by (simp add: createFromViewport_def exampleEnv_newViewingSpace) (simp add: eval_defs)




text \<open>
  C8. For every 2D view, after construction the third row of the rotation is the
  world Z axis: within the tolerance of \<^verbatim>\<open>isAlmostEqual\<close> (the test of the alignment)
  for every rotation, and exactly when the third row of the view's rotation is
  exactly the world Z axis (a rotation about the Z axis, as a 2D view holds) or not
  within the tolerance of it (the alignment then replaces it). The z component of the
  delta is exactly twice one meter and the z component of the origin is exactly minus
  one meter.
\<close>

theorem view2d_depth_and_alignment:
  assumes "\<not> is3d (vp_view vp)" and "newViewingSpace env vp planes = Inr vs"
  shows "isAlmostEqual unitZ (rowZ (rotation vs)) \<and>
         (rowZ (getRotation (vp_view vp)) = unitZ \<or>
          \<not> isAlmostEqual unitZ (rowZ (getRotation (vp_view vp))) \<longrightarrow>
            rowZ (rotation vs) = unitZ) \<and>
         xyz_z (viewDelta vs) = 2 * oneMeter \<and>
         xyz_z (viewOrigin vs) = - oneMeter"
  using assms(1) isAlmostEqual_refl [of unitZ]
  by (auto simp add: newViewingSpace_Inr [OF assms(2)] volumeSpace_fields adjustVolume_2d
      initialSpace_fields alignWithRootZ_rowZ frustumDepth2d_def)

theorem view2d_depth_and_alignment_witness:
  "\<not> is3d exampleView2dTurned \<and> rowZ (getRotation exampleView2dTurned) = unitZ \<and>
   (case newViewingSpace (exampleEnv True nullRange) (exampleViewport exampleView2dTurned) [] of
      Inl e \<Rightarrow> False
    | Inr vs \<Rightarrow> rowZ (rotation vs) = unitZ \<and> xyz_z (viewDelta vs) = 2 \<and>
               xyz_z (viewOrigin vs) = - 1) \<and>
   \<not> is3d exampleView2dFront \<and>
   \<not> isAlmostEqual unitZ (rowZ (getRotation exampleView2dFront)) \<and>
   (case newViewingSpace (exampleEnv True nullRange) (exampleViewport exampleView2dFront) [] of
      Inl e \<Rightarrow> False
    | Inr vs \<Rightarrow> rowZ (rotation vs) = unitZ \<and> xyz_z (viewDelta vs) = 2 \<and>
               xyz_z (viewOrigin vs) = - 1)"
proof -
  obtain vs1 where e1:
    "newViewingSpace (exampleEnv True nullRange) (exampleViewport exampleView2dTurned) [] = Inr vs1"
    by (simp add: exampleEnv_newViewingSpace)
  obtain vs2 where e2:
    "newViewingSpace (exampleEnv True nullRange) (exampleViewport exampleView2dFront) [] = Inr vs2"
    by (simp add: exampleEnv_newViewingSpace)
  have v: "vp_view (exampleViewport exampleView2dTurned) = exampleView2dTurned"
    "vp_view (exampleViewport exampleView2dFront) = exampleView2dFront"
    by (simp_all add: exampleViewport_def)
  have h1: "\<not> is3d (vp_view (exampleViewport exampleView2dTurned))"
    and h2: "\<not> is3d (vp_view (exampleViewport exampleView2dFront))"
    by (simp_all add: exampleViewport_def exampleView2dTurned_def exampleView2dFront_def
        exampleView2d_def)
  have t: "rowZ (getRotation exampleView2dTurned) = unitZ"
    by (simp add: exampleView2dTurned_def exampleView2d_def unitZ_def)
  have f: "\<not> isAlmostEqual unitZ (rowZ (getRotation exampleView2dFront))"
    by (simp add: exampleView2dFront_def exampleView2d_def geom_defs)
  show ?thesis
    unfolding e1 e2
    using view2d_depth_and_alignment [OF h1 e1] view2d_depth_and_alignment [OF h2 e2] h1 h2 t f
    by (simp add: v oneMeter_def)
qed

text \<open>
  C9. For every constructed viewing space the view corners are low = (0, pixel
  height, -32767) and high = (pixel width, 0, 32767). \<^verbatim>\<open>calcNpcToView\<close> asks for the
  box map from the unit NPC cube to these corners: it returns that map, and raises
  where the builder yields none. When the map builder of the view has given a map,
  the constructor has returned only because the box map exists, and the
  world-to-view map it stored is the box map composed with the world-to-NPC map. The
  conversion of a point from NPC to view is the affine map of that box: the y axis is
  inverted (NPC y = 0 goes to the pixel height, NPC y = 1 to 0) and NPC z = 0 and
  z = 1 go to -32767 and 32767.
\<close>

theorem npcToView_box:
  assumes "newViewingSpace env vp planes = Inr vs"
  shows "getViewCorners vs =
     \<lparr>low = createXYZ 0 (real_of_int (height (viewRect vp))) (- 32767),
      high = createXYZ (real_of_int (width (viewRect vp))) 0 32767\<rparr> \<and>
   calcNpcToView env vs =
     (case createBoxMap env (createXYZ 0 0 0) (createXYZ 1 1 1)
             (createXYZ 0 (real_of_int (height (viewRect vp))) (- 32767))
             (createXYZ (real_of_int (width (viewRect vp))) 0 32767) of
        None \<Rightarrow> Inl AssertionError
      | Some m \<Rightarrow> Inr m) \<and>
   (frustFraction vs \<noteq> 0 \<longrightarrow>
      map_option (\<lambda>box. multiplyMapMap env box (worldToNpcMap vs))
        (createBoxMap env (createXYZ 0 0 0) (createXYZ 1 1 1)
           (createXYZ 0 (real_of_int (height (viewRect vp))) (- 32767))
           (createXYZ (real_of_int (width (viewRect vp))) 0 32767)) =
      Some (worldToViewMap vs)) \<and>
   npcToView vs (createXYZ fx fy fz) =
     createXYZ (fx * real_of_int (width (viewRect vp)))
               ((1 - fy) * real_of_int (height (viewRect vp)))
               (- 32767 + fz * 65534) \<and>
   xyz_y (npcToView vs (createXYZ fx 0 fz)) = real_of_int (height (viewRect vp)) \<and>
   xyz_y (npcToView vs (createXYZ fx 1 fz)) = 0 \<and>
   xyz_z (npcToView vs (createXYZ fx fy 0)) = - 32767 \<and>
   xyz_z (npcToView vs (createXYZ fx fy 1)) = 32767"
proof -
  have w: "clientWidth vs = width (viewRect vp)" "clientHeight vs = height (viewRect vp)"
    by (simp_all add: newViewingSpace_Inr [OF assms] volumeSpace_fields adjustVolume_unexpanded
        initialSpace_fields)
  have c: "getViewCorners vs =
     \<lparr>low = createXYZ 0 (real_of_int (height (viewRect vp))) (- 32767),
      high = createXYZ (real_of_int (width (viewRect vp))) 0 32767\<rparr>"
    by (simp add: getViewCorners_def initViewRect_def Let_def w)
  have n: "NpcCorners ! 0 = createXYZ 0 0 0" "NpcCorners ! 7 = createXYZ 1 1 1"
    by (simp_all add: NpcCorners_def)
  have m: "calcNpcToView env vs =
     (case createBoxMap env (createXYZ 0 0 0) (createXYZ 1 1 1)
             (createXYZ 0 (real_of_int (height (viewRect vp))) (- 32767))
             (createXYZ (real_of_int (width (viewRect vp))) 0 32767) of
        None \<Rightarrow> Inl AssertionError
      | Some m \<Rightarrow> Inr m)"
    by (simp add: calcNpcToView_def Let_def c n)
  have s: "frustFraction vs \<noteq> 0 \<Longrightarrow>
      map_option (\<lambda>box. multiplyMapMap env box (worldToNpcMap vs))
        (createBoxMap env (createXYZ 0 0 0) (createXYZ 1 1 1)
           (createXYZ 0 (real_of_int (height (viewRect vp))) (- 32767))
           (createXYZ (real_of_int (width (viewRect vp))) 0 32767)) =
      Some (worldToViewMap vs)"
    using assms
    by (auto simp add: newViewingSpace_def calcNpcToView_def getViewCorners_def initViewRect_def
        Let_def n volumeSpace_fields adjustVolume_unexpanded initialSpace_fields
        split: option.splits sum.splits)
  have p: "npcToView vs (createXYZ x y z) =
     createXYZ (x * real_of_int (width (viewRect vp)))
               ((1 - y) * real_of_int (height (viewRect vp)))
               (- 32767 + z * 65534)" for x y z
    by (simp add: npcToView_def fractionToPoint_def Let_def c createXYZ_def algebra_simps)
  show ?thesis
    using s by (simp add: c m p) (simp add: createXYZ_def)
qed

theorem npcToView_box_witness:
  "(case newViewingSpace (exampleEnv True nullRange) (exampleViewport exampleView2d) [] of
      Inl e \<Rightarrow> False
    | Inr vs \<Rightarrow>
        frustFraction vs \<noteq> 0 \<and>
        npcToView vs (createXYZ 0 0 0) = createXYZ 0 600 (- 32767) \<and>
        npcToView vs (createXYZ 1 1 1) = createXYZ 800 0 32767 \<and>
        calcNpcToView (exampleEnv True nullRange) vs = Inr unitMap \<and>
        worldToViewMap vs = unitMap)"
proof -
  obtain vs where eq:
    "newViewingSpace (exampleEnv True nullRange) (exampleViewport exampleView2d) [] = Inr vs"
    by (simp add: exampleEnv_newViewingSpace)
  have f: "frustFraction vs \<noteq> 0"
    using eq by (auto simp add: exampleEnv_newViewingSpace)
  have b: "createBoxMap (exampleEnv True nullRange) lowA highA lowB highB = Some unitMap"
      "multiplyMapMap (exampleEnv True nullRange) x y = x"
    for lowA highA lowB highB x y
    by (simp_all add: exampleEnv_def)
  show ?thesis
    unfolding eq
    using f npcToView_box [OF eq, of 0 0 0] npcToView_box [OF eq, of 1 1 1]
    by (simp add: b) (simp add: ex_defs)
qed

text \<open>
  C10. When \<^verbatim>\<open>getFrustum\<close> is called with \<open>adjustedBox\<close> false on a viewing
  space whose \<open>zClipAdjusted\<close> is true, and the world-to-NPC map cannot be
  recomputed from the unexpanded origin and delta, the frustum returned holds the
  corners of the unit NPC cube for every coordinate system asked for, World and View
  included.
\<close>

theorem getFrustum_unexpanded_failure:
  assumes "\<not> adjustedBox" and "zClipAdjusted this"
    and "fst (computeWorldToNpc env (view this) (rotation this) (viewOriginUnexpanded this)
               (viewDeltaUnexpanded this) True) = None"
  shows "getFrustum env this sys adjustedBox box = NpcCorners"
  using assms by (simp add: getFrustum_def Let_def)

theorem getFrustum_unexpanded_failure_witness:
  "(case newViewingSpace (exampleEnv False unitRange) (exampleViewport exampleView3d) [] of
      Inl e \<Rightarrow> False
    | Inr vs \<Rightarrow>
        zClipAdjusted vs \<and>
        getFrustum (exampleEnv False unitRange) vs World False None = NpcCorners \<and>
        getFrustum (exampleEnv False unitRange) vs View False None = NpcCorners) \<and>
   (case newViewingSpace (exampleEnv True unitRange) (exampleViewport exampleView3d) [] of
      Inl e \<Rightarrow> False
    | Inr vs \<Rightarrow> getFrustum (exampleEnv True unitRange) vs View True None \<noteq> NpcCorners)"
proof -
  let ?env = "exampleEnv False unitRange"
  obtain vs where eq: "newViewingSpace ?env (exampleViewport exampleView3d) [] = Inr vs"
    by (simp add: exampleEnv_newViewingSpace)
  have z: "zClipAdjusted vs"
    by (simp add: newViewingSpace_Inr [OF eq]) (simp add: eval_defs)
  have n: "fst (computeWorldToNpc ?env (view vs) (rotation vs) (viewOriginUnexpanded vs)
               (viewDeltaUnexpanded vs) True) = None"
    by (simp add: exampleEnv_def)
  have c: "(case newViewingSpace (exampleEnv True unitRange) (exampleViewport exampleView3d) [] of
      Inl e \<Rightarrow> False
    | Inr vs \<Rightarrow> getFrustum (exampleEnv True unitRange) vs View True None \<noteq> NpcCorners)"
    by (simp add: exampleEnv_newViewingSpace)
      (simp add: getFrustum_def convertFrustum_def npcToViewArray_def eval_defs)
  show ?thesis
    unfolding eq
    using getFrustum_unexpanded_failure [OF _ z n, of False World None]
      getFrustum_unexpanded_failure [OF _ z n, of False View None] z c
    by simp
qed

end
